theory Spec2Isabelle
  imports Main "HOL-Library.Sublist" "HOL-Library.Word" "HOL-Library.AList"
begin

unbundle bit_operations_syntax

section \<open>JavaScript strings and arrays\<close>

text \<open>
  A JavaScript string is a sequence of UTF-16 code units and \<open>length\<close> counts them. The
  model uses \<open>string\<close>: one \<open>char\<close> stands for one code unit below 256, so the model covers
  the Latin-1 range of the source's strings.
\<close>

definition js_slice :: "'a list \<Rightarrow> int \<Rightarrow> int \<Rightarrow> 'a list" where
  \<comment> \<open>\<open>xs.slice(start, end)\<close> for integers: a negative index counts from the end, and both
      are clamped into \<open>0 .. length\<close>.\<close>
  "js_slice xs start end' =
     (let len = int (length xs);
          from = (if start < 0 then max (len + start) 0 else min start len);
          to = (if end' < 0 then max (len + end') 0 else min end' len)
      in take (nat (to - from)) (drop (nat from) xs))"

definition is_js_space :: "char \<Rightarrow> bool" where
  \<comment> \<open>The class \<open>\s\<close> and the characters removed by \<open>trim()\<close>, below 256: TAB, LF, VT, FF, CR,
      space and the no-break space.\<close>
  "is_js_space c = (of_char c \<in> {9, 10, 11, 12, 13, 32, 160 :: nat})"

definition is_line_terminator :: "char \<Rightarrow> bool" where
  \<comment> \<open>What \<open>.\<close> refuses to match, below 256: LF and CR.\<close>
  "is_line_terminator c = (of_char c \<in> {10, 13 :: nat})"

definition js_trim :: "string \<Rightarrow> string" where
  "js_trim s = rev (dropWhile is_js_space (rev (dropWhile is_js_space s)))"

definition ascii_lower :: "char \<Rightarrow> char" where
  "ascii_lower c =
     (let n = (of_char c :: nat) in if 65 \<le> n \<and> n \<le> 90 then char_of (n + 32) else c)"

definition ci_eq :: "string \<Rightarrow> string \<Rightarrow> bool" where
  \<comment> \<open>Equality of two strings under the \<open>i\<close> flag, on ASCII letters.\<close>
  "ci_eq a b = (map ascii_lower a = map ascii_lower b)"

fun js_includes :: "string \<Rightarrow> string \<Rightarrow> bool" where
  \<comment> \<open>\<open>s.includes(pat)\<close>\<close>
  "js_includes [] pat = (pat = [])"
| "js_includes (c # cs) pat = (prefix pat (c # cs) \<or> js_includes cs pat)"

definition js_or :: "string \<Rightarrow> string \<Rightarrow> string" where
  \<comment> \<open>\<open>a || b\<close> on strings: the empty string is falsy.\<close>
  "js_or a b = (if a = [] then b else a)"

definition js_or_opt :: "string option \<Rightarrow> string \<Rightarrow> string" where
  \<comment> \<open>\<open>a || b\<close> where \<open>a\<close> may be \<open>null\<close> or \<open>undefined\<close>.\<close>
  "js_or_opt a b = (case a of None \<Rightarrow> b | Some s \<Rightarrow> js_or s b)"

definition js_join :: "string \<Rightarrow> string list \<Rightarrow> string" where
  \<comment> \<open>\<open>xs.join(sep)\<close>\<close>
  "js_join sep xs = (case xs of [] \<Rightarrow> [] | y # ys \<Rightarrow> y @ concat (map (\<lambda>z. sep @ z) ys))"

section \<open>The regular expressions of the source\<close>

text \<open>
  Each regular expression of the source is embedded as the function that the backtracking
  matcher computes for it. The building blocks:
  \<^item> a literal under the \<open>i\<close> flag (\<open>strip_ci\<close>);
  \<^item> \<open>[^>]*>\<close>, whose greedy star can only stop at the first \<open>>\<close> (\<open>upto_gt\<close>);
  \<^item> a lazy star followed by a literal, which stops at the first place where the literal
    matches (\<open>lazy_until\<close>);
  \<^item> the scan of a global (\<open>g\<close>) expression from left to right (\<open>match_all\<close>,
    \<open>replace_all\<close>).
\<close>

fun strip_ci :: "string \<Rightarrow> string \<Rightarrow> string option" where
  \<comment> \<open>The literal \<open>lit\<close> at the start of the input, ASCII case ignored: the rest of the input.\<close>
  "strip_ci [] s = Some s"
| "strip_ci (p # ps) [] = None"
| "strip_ci (p # ps) (c # cs) =
     (if ascii_lower c = ascii_lower p then strip_ci ps cs else None)"

fun strip_cs :: "string \<Rightarrow> string \<Rightarrow> string option" where
  \<comment> \<open>The literal at the start of the input, case-sensitive.\<close>
  "strip_cs [] s = Some s"
| "strip_cs (p # ps) [] = None"
| "strip_cs (p # ps) (c # cs) = (if c = p then strip_cs ps cs else None)"

definition upto_gt :: "string \<Rightarrow> (string \<times> string) option" where
  \<comment> \<open>\<open>[^>]*>\<close>: the characters before the first \<open>>\<close>, and the input after it.\<close>
  "upto_gt s =
     (case dropWhile (\<lambda>c. c \<noteq> CHR ''>'') s of
        [] \<Rightarrow> None
      | _ # rest \<Rightarrow> Some (takeWhile (\<lambda>c. c \<noteq> CHR ''>'') s, rest))"

fun lazy_until :: "(char \<Rightarrow> bool) \<Rightarrow> string \<Rightarrow> string \<Rightarrow> (string \<times> string) option" where
  \<comment> \<open>\<open>X*?lit\<close> under the \<open>i\<close> flag, for a character class \<open>X\<close>: the shortest run of \<open>X\<close>
      after which \<open>lit\<close> matches; the run, and the input after \<open>lit\<close>.\<close>
  "lazy_until cls lit [] = (case strip_ci lit [] of Some r \<Rightarrow> Some ([], r) | None \<Rightarrow> None)"
| "lazy_until cls lit (c # cs) =
     (case strip_ci lit (c # cs) of
        Some r \<Rightarrow> Some ([], r)
      | None \<Rightarrow>
          if cls c
          then (case lazy_until cls lit cs of
                  Some (body, r) \<Rightarrow> Some (c # body, r)
                | None \<Rightarrow> None)
          else None)"

definition paired_tag :: "string \<Rightarrow> (char \<Rightarrow> bool) \<Rightarrow> string \<Rightarrow> string
    \<Rightarrow> (string \<times> string \<times> string) option" where
  \<comment> \<open>\<open><open[^>]*>X*?close\<close> under the \<open>i\<close> flag, tried at the start of the input: the
      matched text, the text of \<open>X*?\<close>, and the input after the match.\<close>
  "paired_tag open' cls close' s =
     (case strip_ci open' s of
        None \<Rightarrow> None
      | Some s1 \<Rightarrow>
          (case upto_gt s1 of
             None \<Rightarrow> None
           | Some (a, s2) \<Rightarrow>
               (case lazy_until cls close' s2 of
                  None \<Rightarrow> None
                | Some (body, r) \<Rightarrow>
                    Some (take (length s - length r) s, body, r))))"

function match_all :: "(string \<Rightarrow> (string \<times> string) option) \<Rightarrow> string \<Rightarrow> string list" where
  \<comment> \<open>\<open>s.match(re)\<close> for a global \<open>re\<close> that matches no empty string: the matched texts from
      left to right, each search starting where the last match ended. The matcher gives
      the matched text and the rest of the input.\<close>
  "match_all m [] = []"
| "match_all m (c # cs) =
     (case m (c # cs) of
        Some (hit, r) \<Rightarrow>
          if length r < length (c # cs) then hit # match_all m r else match_all m cs
      | None \<Rightarrow> match_all m cs)"
  by pat_completeness auto
termination
  by (relation "measure (\<lambda>(m, s). length s)") auto

function replace_all :: "(string \<Rightarrow> (string \<times> string) option) \<Rightarrow> string \<Rightarrow> string \<Rightarrow> string" where
  \<comment> \<open>\<open>s.replace(re, rep)\<close> for a global \<open>re\<close> that matches no empty string and a
      replacement without \<open>$\<close>.\<close>
  "replace_all m rep [] = []"
| "replace_all m rep (c # cs) =
     (case m (c # cs) of
        Some (hit, r) \<Rightarrow>
          if length r < length (c # cs) then rep @ replace_all m rep r
          else c # replace_all m rep cs
      | None \<Rightarrow> c # replace_all m rep cs)"
  by pat_completeness auto
termination
  by (relation "measure (\<lambda>(m, rep, s). length s)") auto

function first_match :: "(string \<Rightarrow> 'a option) \<Rightarrow> string \<Rightarrow> 'a option" where
  \<comment> \<open>\<open>s.match(re)\<close> for a \<open>re\<close> without \<open>g\<close>: the leftmost position where the matcher
      succeeds, the end of the input included.\<close>
  "first_match m [] = m []"
| "first_match m (c # cs) =
     (case m (c # cs) of Some x \<Rightarrow> Some x | None \<Rightarrow> first_match m cs)"
  by pat_completeness auto
termination
  by (relation "measure (\<lambda>(m, s). length s)") auto

definition re_title :: "string \<Rightarrow> string option" where
  \<comment> \<open>\<open>/<title[^>]*>(.*?)<\/title>/i\<close> at the start of the input: capture group 1.\<close>
  "re_title s =
     (case paired_tag ''<title'' (\<lambda>c. \<not> is_line_terminator c) ''</title>'' s of
        None \<Rightarrow> None
      | Some (hit, body, r) \<Rightarrow> Some body)"

definition re_script :: "string \<Rightarrow> (string \<times> string) option" where
  \<comment> \<open>\<open>/<script[^>]*>[\s\S]*?<\/script>/gi\<close>\<close>
  "re_script s =
     (case paired_tag ''<script'' (\<lambda>c. True) ''</script>'' s of
        None \<Rightarrow> None
      | Some (hit, body, r) \<Rightarrow> Some (hit, r))"

definition re_style :: "string \<Rightarrow> (string \<times> string) option" where
  \<comment> \<open>\<open>/<style[^>]*>[\s\S]*?<\/style>/gi\<close>\<close>
  "re_style s =
     (case paired_tag ''<style'' (\<lambda>c. True) ''</style>'' s of
        None \<Rightarrow> None
      | Some (hit, body, r) \<Rightarrow> Some (hit, r))"

definition re_any_tag :: "string \<Rightarrow> (string \<times> string) option" where
  \<comment> \<open>\<open>/<[^>]+>/g\<close>: a \<open><\<close>, at least one character other than \<open>>\<close>, and a \<open>>\<close>.\<close>
  "re_any_tag s =
     (case s of
        [] \<Rightarrow> None
      | c # cs \<Rightarrow>
          if c = CHR ''<''
          then (case upto_gt cs of
                  None \<Rightarrow> None
                | Some (a, r) \<Rightarrow> if a = [] then None else Some (c # a @ ''>'', r))
          else None)"

definition re_spaces :: "string \<Rightarrow> (string \<times> string) option" where
  \<comment> \<open>\<open>/\s+/g\<close>\<close>
  "re_spaces s =
     (if takeWhile is_js_space s = [] then None
      else Some (takeWhile is_js_space s, dropWhile is_js_space s))"

section \<open>Title and text\<close>

definition getTitle :: "string \<Rightarrow> string" where
  "getTitle html =
     js_or_opt (map_option js_trim (first_match re_title html)) ''Page''"

definition getText :: "string \<Rightarrow> string" where
  "getText html =
     js_trim
       (replace_all re_spaces '' ''
         (replace_all re_any_tag '' ''
           (replace_all re_style ''''
             (replace_all re_script '''' html))))"

section \<open>The document object model\<close>

text \<open>
  The parser and the DOM are a library (jsdom), outside the repository. A parsed document
  is a tree of nodes; the functions below are the DOM operations the source calls, on
  HTML elements. The tag of an element is stored as the source reads it everywhere,
  \<open>element.tagName.toLowerCase()\<close>; attribute names are lower case, as the parser leaves
  them.
\<close>

datatype node =
    TextNode string
  | CommentNode string
  | ElementNode string "(string \<times> string) list" "node list"

record document =
  documentElement :: node
  quirksMode :: bool

text \<open>
  An element object is identified by its place in the tree: the child indices on the way
  from the element up to the root, so that \<open>[]\<close> is the root element and the tail of a
  handle is its parent. Two handles are the same object iff they are equal.
\<close>

type_synonym element = "nat list"

fun node_at :: "node \<Rightarrow> nat list \<Rightarrow> node option" where
  "node_at n [] = Some n"
| "node_at (ElementNode t a ks) (i # p) = (if i < length ks then node_at (ks ! i) p else None)"
| "node_at (TextNode s) (i # p) = None"
| "node_at (CommentNode s) (i # p) = None"

fun is_element_node :: "node \<Rightarrow> bool" where
  "is_element_node (ElementNode t a ks) = True"
| "is_element_node (TextNode s) = False"
| "is_element_node (CommentNode s) = False"

definition tagName_lower :: "document \<Rightarrow> element \<Rightarrow> string" where
  \<comment> \<open>\<open>element.tagName.toLowerCase()\<close>; a handle that names no element of the document,
      which the source never holds, reads as an element without tag, attributes or
      children.\<close>
  "tagName_lower d e =
     (case node_at (documentElement d) (rev e) of
        Some (ElementNode t a ks) \<Rightarrow> t | _ \<Rightarrow> [])"

definition attributes :: "document \<Rightarrow> element \<Rightarrow> (string \<times> string) list" where
  "attributes d e =
     (case node_at (documentElement d) (rev e) of
        Some (ElementNode t a ks) \<Rightarrow> a | _ \<Rightarrow> [])"

definition childNodes :: "document \<Rightarrow> element \<Rightarrow> node list" where
  "childNodes d e =
     (case node_at (documentElement d) (rev e) of
        Some (ElementNode t a ks) \<Rightarrow> ks | _ \<Rightarrow> [])"

definition getAttribute :: "document \<Rightarrow> element \<Rightarrow> string \<Rightarrow> string option" where
  "getAttribute d e name = map_of (attributes d e) name"

definition hasAttribute :: "document \<Rightarrow> element \<Rightarrow> string \<Rightarrow> bool" where
  "hasAttribute d e name = (getAttribute d e name \<noteq> None)"

definition getAttributeNames :: "document \<Rightarrow> element \<Rightarrow> string list" where
  "getAttributeNames d e = map fst (attributes d e)"

definition element_id :: "document \<Rightarrow> element \<Rightarrow> string" where
  \<comment> \<open>\<open>element.id\<close>: the attribute, or the empty string.\<close>
  "element_id d e = (case getAttribute d e ''id'' of None \<Rightarrow> [] | Some v \<Rightarrow> v)"

definition className :: "document \<Rightarrow> element \<Rightarrow> string" where
  \<comment> \<open>\<open>element.className\<close>: the attribute, or the empty string.\<close>
  "className d e = (case getAttribute d e ''class'' of None \<Rightarrow> [] | Some v \<Rightarrow> v)"

definition is_ascii_whitespace :: "char \<Rightarrow> bool" where
  "is_ascii_whitespace c = (of_char c \<in> {9, 10, 12, 13, 32 :: nat})"

fun split_tokens :: "string \<Rightarrow> string \<Rightarrow> string list" where
  \<comment> \<open>The tokens of a space-separated attribute; the first argument is the token being
      read.\<close>
  "split_tokens cur [] = (if cur = [] then [] else [cur])"
| "split_tokens cur (c # cs) =
     (if is_ascii_whitespace c
      then (if cur = [] then split_tokens [] cs else cur # split_tokens [] cs)
      else split_tokens (cur @ [c]) cs)"

fun first_occurrences :: "'a list \<Rightarrow> 'a list \<Rightarrow> 'a list" where
  "first_occurrences seen [] = []"
| "first_occurrences seen (x # xs) =
     (if x \<in> set seen then first_occurrences seen xs
      else x # first_occurrences (x # seen) xs)"

definition classList :: "document \<Rightarrow> element \<Rightarrow> string list" where
  \<comment> \<open>\<open>Array.from(element.classList)\<close>: the tokens of the class attribute, each once, in
      the order of their first occurrence.\<close>
  "classList d e = first_occurrences [] (split_tokens [] (className d e))"

fun node_text :: "node \<Rightarrow> string" and nodes_text :: "node list \<Rightarrow> string" where
  "node_text (TextNode s) = s"
| "node_text (CommentNode s) = []"
| "node_text (ElementNode t a ks) = nodes_text ks"
| "nodes_text [] = []"
| "nodes_text (k # ks) = node_text k @ nodes_text ks"

definition textContent :: "document \<Rightarrow> element \<Rightarrow> string" where
  \<comment> \<open>\<open>element.textContent\<close>: the text nodes below the element, in document order.\<close>
  "textContent d e = nodes_text (childNodes d e)"

definition parentElement :: "element \<Rightarrow> element option" where
  \<comment> \<open>The parent of the root element is the document, which is no element.\<close>
  "parentElement e = (case e of [] \<Rightarrow> None | i # p \<Rightarrow> Some p)"

definition children :: "document \<Rightarrow> element \<Rightarrow> element list" where
  \<comment> \<open>\<open>Array.from(element.children)\<close>: the child nodes that are elements.\<close>
  "children d e =
     map (\<lambda>i. i # e)
       (filter (\<lambda>i. is_element_node (childNodes d e ! i)) [0..<length (childNodes d e)])"

definition body :: "document \<Rightarrow> element option" where
  \<comment> \<open>\<open>document.body\<close>: the first child of the \<open>html\<close> element that is a \<open>body\<close> or a
      \<open>frameset\<close>, or \<open>null\<close>.\<close>
  "body d =
     (if tagName_lower d [] = ''html''
      then (case filter (\<lambda>c. tagName_lower d c = ''body'' \<or> tagName_lower d c = ''frameset'')
                   (children d []) of
              [] \<Rightarrow> None
            | b # bs \<Rightarrow> Some b)
      else None)"

fun elements_below :: "node \<Rightarrow> element \<Rightarrow> element list"
  and elements_among :: "node list \<Rightarrow> nat \<Rightarrow> element \<Rightarrow> element list" where
  \<comment> \<open>The elements of a subtree in document order, given the handle of its root.\<close>
  "elements_below (ElementNode t a ks) e = e # elements_among ks 0 e"
| "elements_below (TextNode s) e = []"
| "elements_below (CommentNode s) e = []"
| "elements_among [] i e = []"
| "elements_among (k # ks) i e = elements_below k (i # e) @ elements_among ks (Suc i) e"

subsection \<open>Selectors\<close>

text \<open>
  \<open>querySelectorAll\<close> takes a selector string; the model takes the selector parsed. A
  compound selector is a list of simple selectors, all of which must match; a selector is
  a compound, or a compound below an ancestor matching another compound. In a document in
  quirks mode class names compare ASCII case-insensitively. The value of the \<open>type\<close>
  attribute of an HTML element compares ASCII case-insensitively in a selector; the
  value of \<open>role\<close> does not.
\<close>

datatype simple_selector =
    Tag string
  | HasAttr string
  | AttrIs string string
  | AttrIsCI string string
  | Class string
  | Not simple_selector

datatype selector =
    Compound "simple_selector list"
  | Descendant "simple_selector list" "simple_selector list"

fun matches_simple :: "document \<Rightarrow> element \<Rightarrow> simple_selector \<Rightarrow> bool" where
  "matches_simple d e (Tag t) = (tagName_lower d e = t)"
| "matches_simple d e (HasAttr a) = hasAttribute d e a"
| "matches_simple d e (AttrIs a v) = (getAttribute d e a = Some v)"
| "matches_simple d e (AttrIsCI a v) =
     (case getAttribute d e a of None \<Rightarrow> False | Some w \<Rightarrow> ci_eq w v)"
| "matches_simple d e (Class c) =
     (if quirksMode d then list_ex (\<lambda>k. ci_eq k c) (classList d e)
      else c \<in> set (classList d e))"
| "matches_simple d e (Not s) = (\<not> matches_simple d e s)"

definition matches_compound :: "document \<Rightarrow> simple_selector list \<Rightarrow> element \<Rightarrow> bool" where
  "matches_compound d ss e = list_all (matches_simple d e) ss"

fun ancestors :: "element \<Rightarrow> element list" where
  "ancestors [] = []"
| "ancestors (i # p) = p # ancestors p"

fun matches_selector :: "document \<Rightarrow> selector \<Rightarrow> element \<Rightarrow> bool" where
  "matches_selector d (Compound ss) e = matches_compound d ss e"
| "matches_selector d (Descendant anc ss) e =
     (matches_compound d ss e \<and> list_ex (matches_compound d anc) (ancestors e))"

definition querySelectorAll :: "document \<Rightarrow> selector \<Rightarrow> element list" where
  "querySelectorAll d s =
     filter (matches_selector d s) (elements_below (documentElement d) [])"

section \<open>Finding the interactive elements\<close>

definition isMeaningfulElement :: "document \<Rightarrow> element \<Rightarrow> bool" where
  "isMeaningfulElement d element =
     (let tag = tagName_lower d element;
          text = js_trim (textContent d element)
      in if text = [] \<and> tag \<noteq> ''input'' then False
         else if length text > 100 then False
         else True)"

definition hiddenPatterns :: "string list" where
  "hiddenPatterns = [''hidden'', ''invisible'', ''d-none'', ''sr-only'', ''visually-hidden'']"

definition hidden_by_itself :: "document \<Rightarrow> element \<Rightarrow> bool" where
  \<comment> \<open>Checks 1 to 3 of \<open>isVisible\<close>: the \<open>hidden\<close> attribute, the inline style, the class
      name. For an HTML element \<open>className\<close> is the class attribute; for an SVG element it
      is an object, \<open>includes\<close> throws and the \<open>catch\<close> of \<open>isVisible\<close> answers \<open>true\<close>,
      which the model leaves out.\<close>
  "hidden_by_itself d element =
     (if hasAttribute d element ''hidden'' then True
      else let style = js_or_opt (getAttribute d element ''style'') [] in
        if js_includes style ''display:none'' \<or> js_includes style ''display: none'' then True
        else if js_includes style ''visibility:hidden'' \<or> js_includes style ''visibility: hidden''
        then True
        else list_ex (\<lambda>pattern. js_includes (js_or (className d element) []) pattern)
               hiddenPatterns)"

fun isVisible :: "document \<Rightarrow> element \<Rightarrow> bool" where
  \<comment> \<open>Check 4 recurs on the parent unless it is absent, the body or the root element.\<close>
  "isVisible d [] = (\<not> hidden_by_itself d [])"
| "isVisible d (i # parent) =
     (if hidden_by_itself d (i # parent) then False
      else if Some parent \<noteq> body d \<and> parent \<noteq> [] then isVisible d parent
      else True)"

definition getOwnText :: "document \<Rightarrow> element \<Rightarrow> string" where
  "getOwnText d element =
     concat (map (\<lambda>n. case n of TextNode s \<Rightarrow> s | _ \<Rightarrow> []) (childNodes d element))"

definition meaningfulAttrs :: "string list" where
  "meaningfulAttrs = [''id'', ''data-'', ''aria-'', ''role'', ''onclick'', ''onchange'']"

definition hasMeaningfulAttributes :: "document \<Rightarrow> element \<Rightarrow> bool" where
  "hasMeaningfulAttributes d element =
     list_ex (\<lambda>attr. attr \<noteq> ''class'' \<and> attr \<noteq> ''style''
                \<and> list_ex (\<lambda>meaningful. prefix meaningful attr) meaningfulAttrs)
       (getAttributeNames d element)"

definition isUselessWrapper :: "document \<Rightarrow> element \<Rightarrow> bool" where
  "isUselessWrapper d element =
     (let tag = tagName_lower d element in
      if \<not> (tag = ''div'' \<or> tag = ''span'') then False
      else if js_trim (getOwnText d element) \<noteq> [] then False
      else if length (children d element) \<noteq> 1 then False
      else if hasMeaningfulAttributes d element then False
      else True)"

definition extractMeaningfulChild :: "document \<Rightarrow> element \<Rightarrow> element" where
  "extractMeaningfulChild d wrapper =
     (case children d wrapper of [c] \<Rightarrow> c | _ \<Rightarrow> wrapper)"

function unwrap_while :: "document \<Rightarrow> element \<Rightarrow> nat \<Rightarrow> element" where
  \<comment> \<open>The \<open>while\<close> loop of \<open>unwrapUselessWrappers\<close>, from the element and depth it has
      reached.\<close>
  "unwrap_while d element depth =
     (if isUselessWrapper d element \<and> depth < 5
      then unwrap_while d (extractMeaningfulChild d element) (depth + 1)
      else element)"
  by pat_completeness auto
termination
  by (relation "measure (\<lambda>(d, element, depth). 5 - depth)") auto

fun unwrap_for :: "document \<Rightarrow> element list \<Rightarrow> element list \<Rightarrow> element list" where
  \<comment> \<open>The \<open>for\<close> loop of \<open>unwrapUselessWrappers\<close>, from the array \<open>unwrapped\<close> built so
      far.\<close>
  "unwrap_for d unwrapped [] = unwrapped"
| "unwrap_for d unwrapped (e # es) =
     (let element = unwrap_while d e 0
      in unwrap_for d
           (if element \<in> set unwrapped then unwrapped else unwrapped @ [element]) es)"

definition unwrapUselessWrappers :: "document \<Rightarrow> element list \<Rightarrow> element list" where
  "unwrapUselessWrappers d elements = unwrap_for d [] elements"

definition selectors :: "selector list" where
  \<comment> \<open>\<open>button\<close>, \<open>a[href]\<close>, \<open>input[type]:not([type="hidden"])\<close>, \<open>select\<close>, \<open>textarea\<close>,
      \<open>[role="button"]\<close>, \<open>[role="link"]\<close>, \<open>[role="menuitem"]\<close>, \<open>[onclick]\<close>, \<open>nav a\<close>,
      \<open>.menu a\<close>, \<open>.nav-link\<close>\<close>
  "selectors =
     [Compound [Tag ''button''],
      Compound [Tag ''a'', HasAttr ''href''],
      Compound [Tag ''input'', HasAttr ''type'', Not (AttrIsCI ''type'' ''hidden'')],
      Compound [Tag ''select''],
      Compound [Tag ''textarea''],
      Compound [AttrIs ''role'' ''button''],
      Compound [AttrIs ''role'' ''link''],
      Compound [AttrIs ''role'' ''menuitem''],
      Compound [HasAttr ''onclick''],
      Descendant [Tag ''nav''] [Tag ''a''],
      Descendant [Class ''menu''] [Tag ''a''],
      Compound [Class ''nav-link'']]"

definition findMeaningfulElements :: "document \<Rightarrow> element list" where
  "findMeaningfulElements d =
     unwrapUselessWrappers d
       (concat (map (\<lambda>selector.
            filter (\<lambda>elem. isMeaningfulElement d elem \<and> isVisible d elem)
              (querySelectorAll d selector))
          selectors))"

section \<open>Snapshots, options and the caches\<close>

datatype ElemType = Btn | Input | Link | Select

record Elem =
  elem_type :: ElemType
  elem_text :: string
  sel :: string
  elem_context :: "string option"
  xpath :: "string option"
  elem_id :: "string option"

record CompSnapshot =
  title :: string
  snap_text :: string
  elems :: "Elem list"

text \<open>An absent option is \<open>None\<close>; destructuring then takes the default.\<close>

record CompOpts =
  maxText :: "int option"
  maxElems :: "int option"

datatype error = Error string

text \<open>
  The static fields of the class. A \<open>Map\<close> is an association list in insertion order:
  \<open>get\<close> is \<open>map_of\<close>, \<open>set\<close> is \<open>AList.update\<close> (in place for a key that is present, at
  the end for a new one), \<open>delete\<close> is \<open>AList.delete\<close>, \<open>size\<close> is \<open>length\<close>. The three
  lazily compiled patterns are constants and carry no state.
\<close>

record caches =
  domCache :: "(string \<times> document) list"
  selectorCache :: "(string \<times> string) list"
  lastCacheCleanup :: int

definition CACHE_TTL :: int where
  "CACHE_TTL = 300000"

definition MAX_CACHE_SIZE :: nat where
  "MAX_CACHE_SIZE = 100"

definition cleanupCaches :: "int \<Rightarrow> caches \<Rightarrow> caches" where
  \<comment> \<open>\<open>now\<close> is the reading of \<open>Date.now()\<close>.\<close>
  "cleanupCaches now st =
     (if now - lastCacheCleanup st > CACHE_TTL
      then st\<lparr>domCache :=
                 (if length (domCache st) > MAX_CACHE_SIZE
                  then foldl (\<lambda>m key. AList.delete key m) (domCache st)
                         (map fst (take (length (domCache st) div 2) (domCache st)))
                  else domCache st),
              selectorCache := [],
              lastCacheCleanup := now\<rparr>
      else st)"

subsection \<open>The fingerprint of a document\<close>

definition hash_step :: "32 word \<Rightarrow> char \<Rightarrow> 32 word" where
  \<comment> \<open>\<open>hash = ((hash << 5) - hash) + char; hash = hash & hash\<close>: the sum is exact in a
      double and \<open>&\<close> brings it back to 32 bits.\<close>
  "hash_step hash c =
     (let h = (push_bit 5 hash - hash) + of_nat (of_char c) in h AND h)"

definition base36_digit :: "nat \<Rightarrow> char" where
  "base36_digit k = ''0123456789abcdefghijklmnopqrstuvwxyz'' ! (k mod 36)"

function base36 :: "nat \<Rightarrow> string" where
  "base36 n = (if n < 36 then [base36_digit n] else base36 (n div 36) @ [base36_digit (n mod 36)])"
  by pat_completeness auto
termination
  by (relation "measure id") auto

definition toString36 :: "int \<Rightarrow> string" where
  \<comment> \<open>\<open>n.toString(36)\<close> for an integer.\<close>
  "toString36 n = (if n < 0 then CHR ''-'' # base36 (nat (- n)) else base36 (nat n))"

definition generateHtmlHash :: "string \<Rightarrow> string" where
  "generateHtmlHash html =
     toString36 (sint (foldl hash_step 0 (take (min (length html) 1000) html)))"

section \<open>Selectors for the elements found\<close>

definition is_hex_digit_ci :: "char \<Rightarrow> bool" where
  \<comment> \<open>\<open>[a-f0-9]\<close> under the \<open>i\<close> flag\<close>
  "is_hex_digit_ci c =
     (let n = (of_char (ascii_lower c) :: nat) in (48 \<le> n \<and> n \<le> 57) \<or> (97 \<le> n \<and> n \<le> 102))"

definition is_digit :: "char \<Rightarrow> bool" where
  \<comment> \<open>\<open>\d\<close>\<close>
  "is_digit c = (let n = (of_char c :: nat) in 48 \<le> n \<and> n \<le> 57)"

definition meaninglessIdPattern :: "string \<Rightarrow> bool" where
  \<comment> \<open>\<open>/^(auto|gen|temp|[a-f0-9]{8,}|\d+)$/i.test(id)\<close>\<close>
  "meaninglessIdPattern s =
     (list_ex (ci_eq s) [''auto'', ''gen'', ''temp'']
      \<or> (length s \<ge> 8 \<and> list_all is_hex_digit_ci s)
      \<or> (length s \<ge> 1 \<and> list_all is_digit s))"

definition isMeaningfulId :: "string \<Rightarrow> bool" where
  "isMeaningfulId id' = (\<not> meaninglessIdPattern id' \<and> length id' < 30 \<and> length id' > 2)"

definition meaningfulClassPattern :: "string \<Rightarrow> bool" where
  \<comment> \<open>\<open>/^(btn|button|link|nav|menu|form|input|search|login|header|footer|main|primary|
      secondary|submit|cancel|close|back|next|prev|home|user|account|profile|settings|
      logout|signin|signup)$/i\<close>\<close>
  "meaningfulClassPattern s =
     list_ex (ci_eq s)
       [''btn'', ''button'', ''link'', ''nav'', ''menu'', ''form'', ''input'', ''search'',
        ''login'', ''header'', ''footer'', ''main'', ''primary'', ''secondary'', ''submit'',
        ''cancel'', ''close'', ''back'', ''next'', ''prev'', ''home'', ''user'', ''account'',
        ''profile'', ''settings'', ''logout'', ''signin'', ''signup'']"

definition meaninglessClassPattern :: "string \<Rightarrow> bool" where
  \<comment> \<open>\<open>/^(col-|row-|d-|m[tblr]?-|p[tblr]?-|text-|bg-|border-|[a-f0-9]{6,}|w-|h-|flex|grid|
      absolute|relative|fixed|static)$/i\<close>: the pattern is anchored at both ends, so
      each alternative is the whole string.\<close>
  "meaninglessClassPattern s =
     (list_ex (ci_eq s)
        [''col-'', ''row-'', ''d-'',
         ''m-'', ''mt-'', ''mb-'', ''ml-'', ''mr-'',
         ''p-'', ''pt-'', ''pb-'', ''pl-'', ''pr-'',
         ''text-'', ''bg-'', ''border-'', ''w-'', ''h-'', ''flex'', ''grid'',
         ''absolute'', ''relative'', ''fixed'', ''static'']
      \<or> (length s \<ge> 6 \<and> list_all is_hex_digit_ci s))"

definition isMeaningfulClass :: "string \<Rightarrow> bool" where
  "isMeaningfulClass cls = (meaningfulClassPattern cls \<and> \<not> meaninglessClassPattern cls)"

definition landmarks :: "string list" where
  "landmarks = [''nav'', ''form'', ''header'', ''footer'', ''main'', ''aside'']"

function getParentContext_while :: "document \<Rightarrow> element option \<Rightarrow> nat \<Rightarrow> string" where
  \<comment> \<open>The \<open>while (parent && depth < 3)\<close> loop of \<open>getParentContext\<close> and the \<open>return ''\<close>
      after it.\<close>
  "getParentContext_while d parent depth =
     (case parent of
        None \<Rightarrow> []
      | Some p \<Rightarrow>
          if depth < 3
          then (let tag = tagName_lower d p;
                    parentId = element_id d p;
                    classes = classList d p
                in if tag \<in> set landmarks then tag
                   else if parentId \<noteq> [] \<and> isMeaningfulId parentId then CHR ''#'' # parentId
                   else (case find isMeaningfulClass classes of
                           Some meaningfulClass \<Rightarrow> CHR ''.'' # meaningfulClass
                         | None \<Rightarrow> getParentContext_while d (parentElement p) (depth + 1)))
          else [])"
  by pat_completeness auto
termination
  by (relation "measure (\<lambda>(d, parent, depth). 3 - depth)") auto

definition getParentContext :: "document \<Rightarrow> element \<Rightarrow> string" where
  "getParentContext d element = getParentContext_while d (parentElement element) 0"

definition getElementCacheKey :: "document \<Rightarrow> element \<Rightarrow> string" where
  "getElementCacheKey d element =
     (let tag = tagName_lower d element;
          id' = element_id d element;
          classes = className d element;
          type = js_or_opt (getAttribute d element ''type'') []
      in tag @ ''-'' @ id' @ ''-'' @ classes @ ''-'' @ type)"

definition synthesizeSelector :: "document \<Rightarrow> element \<Rightarrow> string" where
  \<comment> \<open>Steps 1 to 4 of \<open>generateMeaningfulSelector\<close>: what it computes when the cache has
      no entry for the element.\<close>
  "synthesizeSelector d element =
     (let tag = tagName_lower d element;
          id' = element_id d element
      in if id' \<noteq> [] \<and> isMeaningfulId id' then CHR ''#'' # id'
         else
           let classes = classList d element;
               meaningfulClasses = filter isMeaningfulClass classes;
               selectors1 =
                 (if length meaningfulClasses > 0
                  then [tag, CHR ''.'' # js_join ''.'' (js_slice meaningfulClasses 0 2)]
                  else [tag]);
               selectors2 =
                 (if tag = ''input''
                  then (case getAttribute d element ''type'' of
                          None \<Rightarrow> selectors1
                        | Some type \<Rightarrow>
                            if type \<noteq> [] then selectors1 @ [''[type=\"'' @ type @ ''\"]'']
                            else selectors1)
                  else selectors1);
               parentContext = getParentContext d element
           in if parentContext \<noteq> [] then parentContext @ '' '' @ js_join [] selectors2
              else js_join [] selectors2)"

definition generateMeaningfulSelector :: "document \<Rightarrow> element \<Rightarrow> caches \<Rightarrow> string \<times> caches" where
  \<comment> \<open>The cache is asked first; otherwise both \<open>return\<close> statements store the result
      under the key before they return it.\<close>
  "generateMeaningfulSelector d element st =
     (let cacheKey = getElementCacheKey d element in
      case map_of (selectorCache st) cacheKey of
        Some cached \<Rightarrow> (cached, st)
      | None \<Rightarrow>
          (let result = synthesizeSelector d element
           in (result, st\<lparr>selectorCache := AList.update cacheKey result (selectorCache st)\<rparr>)))"

definition sectionClasses :: "string list" where
  "sectionClasses = [''menu'', ''sidebar'', ''content'', ''login'', ''search'']"

function getElementContext_while :: "document \<Rightarrow> element option \<Rightarrow> nat \<Rightarrow> string list \<Rightarrow> string list"
  where
  \<comment> \<open>The \<open>while (parent && depth < 2)\<close> loop of \<open>getElementContext\<close>, from the array
      \<open>contexts\<close> built so far; \<open>unshift\<close> puts an entry in front.\<close>
  "getElementContext_while d parent depth contexts =
     (case parent of
        None \<Rightarrow> contexts
      | Some p \<Rightarrow>
          if depth < 2
          then (let tag = tagName_lower d p;
                    classes = classList d p;
                    contexts1 = (if tag \<in> set [''nav'', ''header'', ''footer'', ''main'', ''aside'', ''form'']
                                 then tag # contexts else contexts);
                    contexts2 =
                      (case find (\<lambda>cls. list_ex (\<lambda>sc. js_includes cls sc) sectionClasses) classes of
                         Some sectionClass \<Rightarrow>
                           map (\<lambda>c. if c = CHR ''-'' \<or> c = CHR ''_'' then CHR '' '' else c) sectionClass
                             # contexts1
                       | None \<Rightarrow> contexts1)
                in getElementContext_while d (parentElement p) (depth + 1) contexts2)
          else contexts)"
  by pat_completeness auto
termination
  by (relation "measure (\<lambda>(d, parent, depth, contexts). 2 - depth)") auto

definition getElementContext :: "document \<Rightarrow> element \<Rightarrow> string" where
  "getElementContext d element =
     js_or (js_join '' > '' (getElementContext_while d (parentElement element) 0 [])) []"

definition elemToElem :: "document \<Rightarrow> element \<Rightarrow> caches \<Rightarrow> Elem \<times> caches" where
  "elemToElem d element st =
     (let tag = tagName_lower d element;
          text = js_or (js_trim (textContent d element)) [];
          (meaningfulSelector, st') = generateMeaningfulSelector d element st;
          context = getElementContext d element
      in if tag = ''button'' then
           (\<lparr>elem_type = Btn, elem_text = js_slice text 0 30, sel = meaningfulSelector,
             elem_context = Some (js_or context ''page button''),
             xpath = None, elem_id = None\<rparr>, st')
         else if tag = ''a'' then
           (\<lparr>elem_type = Link, elem_text = js_slice text 0 30, sel = meaningfulSelector,
             elem_context = Some (js_or context ''page link''),
             xpath = None, elem_id = None\<rparr>, st')
         else if tag = ''input'' then
           (let placeholder =
                  js_or_opt (getAttribute d element ''placeholder'')
                    (js_or_opt (getAttribute d element ''name'') ''Input'');
                inputType = js_or_opt (getAttribute d element ''type'') ''text''
            in (\<lparr>elem_type = Input, elem_text = placeholder, sel = meaningfulSelector,
                 elem_context = Some (js_or context (inputType @ '' input'')),
                 xpath = None, elem_id = None\<rparr>, st'))
         else if tag = ''select'' then
           (\<lparr>elem_type = Select, elem_text = js_or (js_slice text 0 30) ''Select'',
             sel = meaningfulSelector,
             elem_context = Some (js_or context ''dropdown select''),
             xpath = None, elem_id = None\<rparr>, st')
         else if tag = ''textarea'' then
           (let textareaPlaceholder =
                  js_or_opt (getAttribute d element ''placeholder'') ''Text area''
            in (\<lparr>elem_type = Input, elem_text = textareaPlaceholder, sel = meaningfulSelector,
                 elem_context = Some (js_or context ''text area''),
                 xpath = None, elem_id = None\<rparr>, st'))
         else
           (\<lparr>elem_type = Btn, elem_text = js_slice text 0 30, sel = meaningfulSelector,
             elem_context = Some (js_or context (tag @ '' element'')),
             xpath = None, elem_id = None\<rparr>, st'))"

fun map_elemToElem :: "document \<Rightarrow> element list \<Rightarrow> caches \<Rightarrow> Elem list \<times> caches" where
  \<comment> \<open>\<open>meaningfulElems.map(elem => this.elemToElem(elem))\<close>, the caches passed from one
      call to the next.\<close>
  "map_elemToElem d [] st = ([], st)"
| "map_elemToElem d (e # es) st =
     (let (x, st1) = elemToElem d e st;
          (xs, st2) = map_elemToElem d es st1
      in (x # xs, st2))"

section \<open>Extraction\<close>

text \<open>
  The parser is a parameter: \<open>parse html\<close> is the document that \<open>new JSDOM(html, ...)\<close>
  builds, or \<open>None\<close> when it throws an \<open>Error\<close>. The \<open>try\<close> block of \<open>getElemsDom\<close>
  turns that exception into the empty array, with the caches as they were, since the
  parser is called before anything is stored.

  The source builds the document with \<open>runScripts: 'dangerously'\<close>, so the scripts of the
  page run while it is parsed. The model covers the calls in which they do no more than
  build the document: they end, they leave the DOM operations of the document as the
  library defines them, and nothing but an \<open>Error\<close> is thrown inside the \<open>try\<close> block.
  Outside the model are a page whose script never ends (the call does not return), a
  page whose script replaces a DOM operation by one that throws \<open>null\<close> (the \<open>catch\<close>
  block reads \<open>error.message\<close> and throws a \<open>TypeError\<close> out of \<open>tiny\<close>), and a cached document
  that a script of its page changes between two calls: the cache holds the document
  itself, the model its content when it was parsed.
\<close>

definition getElemsDom :: "(string \<Rightarrow> document option) \<Rightarrow> string \<Rightarrow> caches \<Rightarrow> Elem list \<times> caches"
  where
  "getElemsDom parse html st =
     (let cacheKey = generateHtmlHash html;
          found =
            (case map_of (domCache st) cacheKey of
               Some document \<Rightarrow> Some (document, st)
             | None \<Rightarrow>
                 (case parse html of
                    None \<Rightarrow> None
                  | Some document \<Rightarrow>
                      Some (document,
                        if length (domCache st) < MAX_CACHE_SIZE
                        then st\<lparr>domCache := AList.update cacheKey document (domCache st)\<rparr>
                        else st)))
      in case found of
           None \<Rightarrow> ([], st)
         | Some (document, st1) \<Rightarrow>
             (let meaningfulElems = findMeaningfulElements document;
                  (converted, st2) = map_elemToElem document meaningfulElems st1
              in (js_slice converted 0 50, st2)))"

definition re_button :: "string \<Rightarrow> (string \<times> string) option" where
  \<comment> \<open>\<open>/<button[^>]*>.*?<\/button>/gi\<close>\<close>
  "re_button s =
     (case paired_tag ''<button'' (\<lambda>c. \<not> is_line_terminator c) ''</button>'' s of
        None \<Rightarrow> None
      | Some (hit, inner, r) \<Rightarrow> Some (hit, r))"

definition re_a :: "string \<Rightarrow> (string \<times> string) option" where
  \<comment> \<open>\<open>/<a[^>]*>.*?<\/a>/gi\<close>\<close>
  "re_a s =
     (case paired_tag ''<a'' (\<lambda>c. \<not> is_line_terminator c) ''</a>'' s of
        None \<Rightarrow> None
      | Some (hit, inner, r) \<Rightarrow> Some (hit, r))"

definition re_input :: "string \<Rightarrow> (string \<times> string) option" where
  \<comment> \<open>\<open>/<input[^>]*>/gi\<close>\<close>
  "re_input s =
     (case strip_ci ''<input'' s of
        None \<Rightarrow> None
      | Some s1 \<Rightarrow>
          (case upto_gt s1 of
             None \<Rightarrow> None
           | Some (a, r) \<Rightarrow> Some (take (length s - length r) s, r)))"

definition re_placeholder :: "string \<Rightarrow> string option" where
  \<comment> \<open>\<open>/placeholder=["']([^"']*)/\<close> at the start of the input: capture group 1.\<close>
  "re_placeholder s =
     (case strip_cs ''placeholder='' s of
        None \<Rightarrow> None
      | Some [] \<Rightarrow> None
      | Some (q # r) \<Rightarrow>
          if q = CHR 0x22 \<or> q = CHR 0x27
          then Some (takeWhile (\<lambda>c. c \<noteq> CHR 0x22 \<and> c \<noteq> CHR 0x27) r)
          else None)"

definition getElemsRegex :: "string \<Rightarrow> Elem list" where
  "getElemsRegex html =
     concat (map (\<lambda>btn.
         let text = js_trim (replace_all re_any_tag [] btn)
         in if text \<noteq> []
            then [\<lparr>elem_type = Btn, elem_text = js_slice text 0 30, sel = ''button'',
                   elem_context = None, xpath = None, elem_id = None\<rparr>]
            else [])
       (match_all re_button html))
     @ concat (map (\<lambda>link.
         let text = js_trim (replace_all re_any_tag [] link)
         in if text \<noteq> []
            then [\<lparr>elem_type = Link, elem_text = js_slice text 0 30, sel = ''a'',
                   elem_context = None, xpath = None, elem_id = None\<rparr>]
            else [])
       (match_all re_a html))
     @ map (\<lambda>input.
         let placeholder = js_or_opt (first_match re_placeholder input) ''Input''
         in \<lparr>elem_type = Input, elem_text = placeholder, sel = ''input'',
              elem_context = None, xpath = None, elem_id = None\<rparr>)
       (match_all re_input html)"

definition getElems :: "(string \<Rightarrow> document option) \<Rightarrow> string \<Rightarrow> caches \<Rightarrow> Elem list \<times> caches"
  where
  "getElems parse html st =
     (let (domResult, st1) = getElemsDom parse html st
      in if length domResult > 0 then (domResult, st1)
         else (getElemsRegex html, st1))"

definition maxText_or_default :: "CompOpts \<Rightarrow> int" where
  \<comment> \<open>\<open>const { maxText = 1000, ... } = opts\<close>\<close>
  "maxText_or_default opts = (case maxText opts of None \<Rightarrow> 1000 | Some n \<Rightarrow> n)"

definition maxElems_or_default :: "CompOpts \<Rightarrow> int" where
  \<comment> \<open>\<open>const { ..., maxElems = 15 } = opts\<close>\<close>
  "maxElems_or_default opts = (case maxElems opts of None \<Rightarrow> 15 | Some n \<Rightarrow> n)"

definition tiny :: "(string \<Rightarrow> document option) \<Rightarrow> int \<Rightarrow> string \<Rightarrow> CompOpts \<Rightarrow> caches
    \<Rightarrow> (error + CompSnapshot) \<times> caches" where
  \<comment> \<open>\<open>now\<close> is the reading of the clock at the call. A \<open>throw\<close> is the left summand; the
      caches are returned as the call leaves them.\<close>
  "tiny parse now html opts st =
     (let st0 = cleanupCaches now st
      in if length html > 5000000 then (Inl (Error ''HTML too large for processing''), st0)
         else
           let maxText' = maxText_or_default opts;
               maxElems' = maxElems_or_default opts;
               title' = getTitle html;
               text = js_slice (getText html) 0 maxText';
               (found, st1) = getElems parse html st0;
               elems' = js_slice found 0 maxElems'
           in (Inr \<lparr>title = title', snap_text = text, elems = elems'\<rparr>, st1))"

section \<open>Restoring a page from a snapshot\<close>

definition escapeHtml :: "string \<Rightarrow> string" where
  \<comment> \<open>Five replacements of one character each, one after the other.\<close>
  "escapeHtml text =
     (let replace = (\<lambda>c rep s. concat (map (\<lambda>x. if x = c then rep else [x]) s))
      in replace (CHR 0x27) ''&#x27;''
           (replace (CHR 0x22) ''&quot;''
             (replace CHR ''>'' ''&gt;''
               (replace CHR ''<'' ''&lt;''
                 (replace CHR ''&'' ''&amp;'' text)))))"

definition elemToHtml :: "Elem \<Rightarrow> string \<Rightarrow> string" where
  \<comment> \<open>The \<open>default\<close> branch of the \<open>switch\<close> is outside the type of \<open>elem.type\<close>.\<close>
  "elemToHtml elem indent =
     (case elem_type elem of
        Btn \<Rightarrow>
          indent @ ''<button sel=\"'' @ sel elem @ ''\">'' @ escapeHtml (elem_text elem)
            @ ''</button>''
      | Link \<Rightarrow>
          indent @ ''<a href=\"#\" sel=\"'' @ sel elem @ ''\">'' @ escapeHtml (elem_text elem)
            @ ''</a>''
      | Input \<Rightarrow>
          indent @ ''<input type=\"text\" sel=\"'' @ sel elem @ ''\" placeholder=\"''
            @ escapeHtml (elem_text elem) @ ''\">''
      | Select \<Rightarrow>
          indent @ ''<select sel=\"'' @ sel elem @ ''\"><option>'' @ escapeHtml (elem_text elem)
            @ ''</option></select>'')"

definition newline :: string where
  "newline = [CHR 0x0A]"

fun groupElementsByContext_into :: "(string \<times> Elem list) list \<Rightarrow> Elem list
    \<Rightarrow> (string \<times> Elem list) list" where
  \<comment> \<open>The \<open>forEach\<close> of \<open>groupElementsByContext\<close>, from the map built so far.\<close>
  "groupElementsByContext_into groups [] = groups"
| "groupElementsByContext_into groups (elem # rest) =
     (let context = js_or_opt (elem_context elem) ''main'';
          groups1 = (if map_of groups context = None then AList.update context [] groups
                     else groups);
          groups2 = AList.update context (the (map_of groups1 context) @ [elem]) groups1
      in groupElementsByContext_into groups2 rest)"

definition groupElementsByContext :: "Elem list \<Rightarrow> (string \<times> Elem list) list" where
  "groupElementsByContext elements = groupElementsByContext_into [] elements"

definition map_get_or_empty :: "(string \<times> Elem list) list \<Rightarrow> string \<Rightarrow> Elem list" where
  \<comment> \<open>\<open>map.get(key) || []\<close>\<close>
  "map_get_or_empty m key = (case map_of m key of None \<Rightarrow> [] | Some v \<Rightarrow> v)"

definition generateNavSection :: "Elem list \<Rightarrow> string" where
  "generateNavSection elements =
     (let navItems = js_join newline (map (\<lambda>elem. elemToHtml elem ''      '') elements)
      in ''  <header>'' @ newline @ ''    <nav>'' @ newline @ navItems @ newline
         @ ''    </nav>'' @ newline @ ''  </header>'')"

definition generateHeaderSection :: "Elem list \<Rightarrow> string" where
  "generateHeaderSection elements =
     (let headerItems = js_join newline (map (\<lambda>elem. elemToHtml elem ''    '') elements)
      in ''  <header>'' @ newline @ headerItems @ newline @ ''  </header>'')"

definition generateFormSection :: "Elem list \<Rightarrow> string" where
  "generateFormSection elements =
     (let formItems = js_join newline (map (\<lambda>elem. elemToHtml elem ''      '') elements)
      in ''    <form>'' @ newline @ formItems @ newline @ ''    </form>'')"

definition re_blank_line :: "string \<Rightarrow> (string \<times> string) option" where
  \<comment> \<open>\<open>/\n\s*\n/\<close> at the start of the input: a line feed, then white space up to the last
      line feed of the run of white space that follows.\<close>
  "re_blank_line s =
     (case s of
        [] \<Rightarrow> None
      | c # rest \<Rightarrow>
          if c = CHR 0x0A
          then (let run = takeWhile is_js_space rest;
                    upto = rev (dropWhile (\<lambda>x. x \<noteq> CHR 0x0A) (rev run))
                in if upto = [] then None
                   else Some (c # upto, drop (length upto) rest))
          else None)"

function js_split :: "(string \<Rightarrow> (string \<times> string) option) \<Rightarrow> string \<Rightarrow> string \<Rightarrow> string list"
  where
  \<comment> \<open>\<open>s.split(re)\<close> for a \<open>re\<close> without groups that matches no empty string; the second
      argument is the piece being read.\<close>
  "js_split m cur [] = [cur]"
| "js_split m cur (c # cs) =
     (case m (c # cs) of
        Some (hit, r) \<Rightarrow>
          if length r < length (c # cs) then cur # js_split m [] r
          else js_split m (cur @ [c]) cs
      | None \<Rightarrow> js_split m (cur @ [c]) cs)"
  by pat_completeness auto
termination
  by (relation "measure (\<lambda>(m, cur, s). length s)") auto

definition generateContentSection :: "string \<Rightarrow> Elem list \<Rightarrow> string" where
  "generateContentSection pageText elements =
     (let sections1 =
            (if js_trim pageText \<noteq> []
             then map (\<lambda>paragraph. ''      <p>'' @ escapeHtml (js_trim paragraph) @ ''</p>'')
                    (filter (\<lambda>p. js_trim p \<noteq> []) (js_split re_blank_line [] pageText))
             else []);
          sections2 =
            (if length elements > 0
             then sections1 @ [''      <div class=\"actions\">'']
                  @ map (\<lambda>elem. elemToHtml elem ''        '') elements
                  @ [''      </div>'']
             else sections1)
      in ''    <section>'' @ newline @ js_join newline sections2 @ newline @ ''    </section>'')"

definition formContexts :: "string list" where
  "formContexts = [''form'', ''form > login'', ''login form'', ''search form'']"

definition generateSemanticBody :: "(string \<times> Elem list) list \<Rightarrow> string \<Rightarrow> string" where
  "generateSemanticBody elementsByContext pageText =
     (let sections1 =
            (if map_of elementsByContext ''nav'' \<noteq> None
                \<or> map_of elementsByContext ''nav > menu'' \<noteq> None
             then (let navElems = map_get_or_empty elementsByContext ''nav''
                                  @ map_get_or_empty elementsByContext ''nav > menu''
                   in if length navElems > 0 then [generateNavSection navElems] else [])
             else []);
          sections2 =
            (case map_of elementsByContext ''header'' of
               Some headerElems \<Rightarrow> sections1 @ [generateHeaderSection headerElems]
             | None \<Rightarrow> sections1);
          formElems = concat (map (map_get_or_empty elementsByContext) formContexts);
          mainSections1 =
            (if length formElems > 0 then [generateFormSection formElems] else []);
          generalElems =
            concat (map snd
              (filter (\<lambda>(context, es).
                   context \<notin> set ([''nav'', ''nav > menu'', ''header''] @ formContexts))
                 elementsByContext));
          mainSections2 =
            (if js_trim pageText \<noteq> [] \<or> length generalElems > 0
             then mainSections1 @ [generateContentSection pageText generalElems]
             else mainSections1);
          sections3 =
            (if length mainSections2 > 0
             then sections2 @ [''  <main>'' @ newline @ js_join newline mainSections2 @ newline
                               @ ''  </main>'']
             else sections2)
      in js_join newline sections3)"

definition restore :: "CompSnapshot \<Rightarrow> string" where
  "restore snapshot =
     (let elementsByContext = groupElementsByContext (elems snapshot)
      in ''<!DOCTYPE html>'' @ newline @ ''<html>'' @ newline @ ''<head>'' @ newline
         @ ''  <title>'' @ escapeHtml (title snapshot) @ ''</title>'' @ newline
         @ ''</head>'' @ newline @ ''<body>'' @ newline
         @ generateSemanticBody elementsByContext (snap_text snapshot) @ newline
         @ ''</body>'' @ newline @ ''</html>'')"

section \<open>The caches at start, and the default options\<close>

definition initial_caches :: "int \<Rightarrow> caches" where
  \<comment> \<open>The static initialisers: two empty maps, and the clock reading when the class is
      loaded.\<close>
  "initial_caches loaded = \<lparr>domCache = [], selectorCache = [], lastCacheCleanup = loaded\<rparr>"

definition default_opts :: CompOpts where
  \<comment> \<open>\<open>opts = {}\<close>\<close>
  "default_opts = \<lparr>maxText = None, maxElems = None\<rparr>"

section \<open>The extractor without caches\<close>

text \<open>
  The specification compares the extractor with one that has no caches: every call parses
  the page, and every element has its selector synthesized. These definitions follow
  that description; they are not in the source.
\<close>

definition elemToElem_without_caches :: "document \<Rightarrow> element \<Rightarrow> Elem" where
  "elemToElem_without_caches d element = fst (elemToElem d element (initial_caches 0))"






section \<open>Pages\<close>

text \<open>
  Each page is given with the document the parser builds for it: an \<open>html\<close> element with
  a \<open>head\<close> and a \<open>body\<close>, the markup of the page below them. A page without a document
  type is parsed in quirks mode.
\<close>

definition login_html :: string where
  "login_html = ''<html><head><title>Login</title></head><body><form><input type=\"text\" placeholder=\"Username\"><input type=\"password\" placeholder=\"Password\"><button>Sign In</button></form></body></html>''"

definition login_doc :: document where
  "login_doc =
     \<lparr>documentElement =
        ElementNode ''html'' []
          [ElementNode ''head'' [] [ElementNode ''title'' [] [TextNode ''Login'']],
           ElementNode ''body'' []
             [ElementNode ''form'' []
                [ElementNode ''input'' [(''type'', ''text''), (''placeholder'', ''Username'')] [],
                 ElementNode ''input'' [(''type'', ''password''), (''placeholder'', ''Password'')] [],
                 ElementNode ''button'' [] [TextNode ''Sign In'']]]],
      quirksMode = True\<rparr>"

definition login_parse :: "string \<Rightarrow> document option" where
  "login_parse html = (if html = login_html then Some login_doc else None)"

definition login_snapshot :: CompSnapshot where
  "login_snapshot =
     \<lparr>title = ''Login'',
      snap_text = ''Login Sign In'',
      elems =
        [\<lparr>elem_type = Btn, elem_text = ''Sign In'', sel = ''form button'',
          elem_context = Some ''form'', xpath = None, elem_id = None\<rparr>,
         \<lparr>elem_type = Input, elem_text = ''Username'', sel = ''form input[type=\"text\"]'',
          elem_context = Some ''form'', xpath = None, elem_id = None\<rparr>,
         \<lparr>elem_type = Input, elem_text = ''Password'', sel = ''form input[type=\"password\"]'',
          elem_context = Some ''form'', xpath = None, elem_id = None\<rparr>]\<rparr>"

definition long_placeholder_html :: string where
  "long_placeholder_html =
     ''<input type=\"text\" placeholder=\"Please enter your full name and address.\">''"

definition long_placeholder_doc :: document where
  "long_placeholder_doc =
     \<lparr>documentElement =
        ElementNode ''html'' []
          [ElementNode ''head'' [] [],
           ElementNode ''body'' []
             [ElementNode ''input''
                [(''type'', ''text''),
                 (''placeholder'', ''Please enter your full name and address.'')] []]],
      quirksMode = True\<rparr>"




definition six_wrappers_doc :: document where
  \<comment> \<open>A button inside six \<open>div\<close> elements without attributes or text.\<close>
  "six_wrappers_doc =
     \<lparr>documentElement =
        ElementNode ''html'' []
          [ElementNode ''head'' [] [],
           ElementNode ''body'' []
             [ElementNode ''div'' [] [ElementNode ''div'' [] [ElementNode ''div'' []
                [ElementNode ''div'' [] [ElementNode ''div'' [] [ElementNode ''div'' []
                   [ElementNode ''button'' [] [TextNode ''Go'']]]]]]]]],
      quirksMode = True\<rparr>"



definition many_inputs_html :: string where
  \<comment> \<open>51 input tags without a type\<close>
  "many_inputs_html = concat (replicate 51 ''<input>'')"

definition many_inputs_doc :: document where
  "many_inputs_doc =
     \<lparr>documentElement =
        ElementNode ''html'' []
          [ElementNode ''head'' [] [],
           ElementNode ''body'' [] (replicate 51 (ElementNode ''input'' [] []))],
      quirksMode = True\<rparr>"

definition many_inputs_parse :: "string \<Rightarrow> document option" where
  "many_inputs_parse html = (if html = many_inputs_html then Some many_inputs_doc else None)"

definition hundred_opts :: CompOpts where
  "hundred_opts = \<lparr>maxText = None, maxElems = Some 100\<rparr>"

definition small_opts :: CompOpts where
  "small_opts = \<lparr>maxText = Some 5, maxElems = Some 2\<rparr>"

definition failing_parse :: "string \<Rightarrow> document option" where
  \<comment> \<open>A parser that throws on every page.\<close>
  "failing_parse html = None"

definition long_placeholder_parse :: "string \<Rightarrow> document option" where
  "long_placeholder_parse html =
     (if html = long_placeholder_html then Some long_placeholder_doc else None)"

definition go_button :: Elem where
  "go_button =
     \<lparr>elem_type = Btn, elem_text = ''Go'', sel = ''button'', elem_context = None,
      xpath = None, elem_id = None\<rparr>"

definition long_placeholder_elem_dom :: Elem where
  "long_placeholder_elem_dom =
     \<lparr>elem_type = Input, elem_text = ''Please enter your full name and address.'',
      sel = ''input[type=\"text\"]'', elem_context = Some ''text input'',
      xpath = None, elem_id = None\<rparr>"

definition long_placeholder_elem_regex :: Elem where
  "long_placeholder_elem_regex =
     \<lparr>elem_type = Input, elem_text = ''Please enter your full name and address.'',
      sel = ''input'', elem_context = None, xpath = None, elem_id = None\<rparr>"

definition login_username :: Elem where
  \<comment> \<open>The second element of \<open>login_snapshot\<close>.\<close>
  "login_username =
     \<lparr>elem_type = Input, elem_text = ''Username'', sel = ''form input[type=\"text\"]'',
      elem_context = Some ''form'', xpath = None, elem_id = None\<rparr>"

definition tom_and_jerry :: CompSnapshot where
  "tom_and_jerry =
     \<lparr>title = ''Tom & Jerry'', snap_text = ''1 < 2'', elems = [login_username]\<rparr>"











section \<open>General facts\<close>

lemma js_slice_0_length: "0 \<le> n \<Longrightarrow> int (length (js_slice xs 0 n)) \<le> n"
  by (simp add: js_slice_def Let_def)

lemma js_slice_50: "length (js_slice xs 0 50) \<le> 50"
  by (simp add: js_slice_def Let_def)

lemma js_slice_0_take: "0 \<le> n \<Longrightarrow> js_slice xs 0 n = take (nat n) xs"
  by (simp add: js_slice_def Let_def min_def)

lemma js_slice_0_nil [simp]: "js_slice [] 0 n = []"
  by (simp add: js_slice_def Let_def)

lemma js_slice_0_map: "js_slice (map f xs) 0 n = map f (js_slice xs 0 n)"
  by (simp add: js_slice_def Let_def take_map)

subsection \<open>What a call does to the caches\<close>

lemma generateMeaningfulSelector_fst:
  "fst (generateMeaningfulSelector d e st) =
     (case map_of (selectorCache st) (getElementCacheKey d e) of
        Some cached \<Rightarrow> cached | None \<Rightarrow> synthesizeSelector d e)"
  by (simp add: generateMeaningfulSelector_def Let_def split: option.splits)

lemma generateMeaningfulSelector_snd:
  "snd (generateMeaningfulSelector d e st) =
     st\<lparr>selectorCache :=
          (case map_of (selectorCache st) (getElementCacheKey d e) of
             Some cached \<Rightarrow> selectorCache st
           | None \<Rightarrow> AList.update (getElementCacheKey d e) (synthesizeSelector d e)
                       (selectorCache st))\<rparr>"
  by (simp add: generateMeaningfulSelector_def Let_def split: option.splits)

lemma elemToElem_fst:
  "fst (elemToElem d e st) =
     (elemToElem_without_caches d e)\<lparr>sel := fst (generateMeaningfulSelector d e st)\<rparr>"
  by (simp add: elemToElem_def elemToElem_without_caches_def Let_def split: prod.splits)

lemma elemToElem_snd:
  "snd (elemToElem d e st) = snd (generateMeaningfulSelector d e st)"
  by (simp add: elemToElem_def Let_def split: prod.splits)


lemma map_elemToElem_Cons_fst:
  "fst (map_elemToElem d (e # es) st) =
     fst (elemToElem d e st) # fst (map_elemToElem d es (snd (elemToElem d e st)))"
  by (simp add: case_prod_beta)

lemma map_elemToElem_Cons_snd:
  "snd (map_elemToElem d (e # es) st) = snd (map_elemToElem d es (snd (elemToElem d e st)))"
  by (simp add: case_prod_beta)

lemma map_elemToElem_selectorCache_only:
  "selectorCache st = selectorCache st' \<Longrightarrow>
   fst (map_elemToElem d es st) = fst (map_elemToElem d es st')
   \<and> selectorCache (snd (map_elemToElem d es st)) = selectorCache (snd (map_elemToElem d es st'))"
proof (induction es arbitrary: st st')
  case Nil
  then show ?case by simp
next
  case (Cons e es)
  let ?s1 = "snd (elemToElem d e st)" and ?s1' = "snd (elemToElem d e st')"
  have x: "fst (elemToElem d e st) = fst (elemToElem d e st')"
    using Cons.prems by (simp add: elemToElem_fst generateMeaningfulSelector_fst)
  have c: "selectorCache ?s1 = selectorCache ?s1'"
    unfolding elemToElem_snd generateMeaningfulSelector_snd Cons.prems by simp
  from Cons.IH [OF c] x show ?case
    by (simp only: map_elemToElem_Cons_fst map_elemToElem_Cons_snd)
qed

lemma getElemsDom_miss:
  assumes "map_of (domCache st) (generateHtmlHash html) = None" and "parse html = Some d"
  shows "fst (getElemsDom parse html st) =
           js_slice (fst (map_elemToElem d (findMeaningfulElements d) st)) 0 50"
proof -
  have "fst (map_elemToElem d es (st\<lparr>domCache := c\<rparr>)) = fst (map_elemToElem d es st)" for es c
    using map_elemToElem_selectorCache_only [of "st\<lparr>domCache := c\<rparr>" st d es] by simp
  then show ?thesis
    using assms by (simp add: getElemsDom_def Let_def case_prod_beta)
qed

lemma getElemsDom_hit:
  assumes "map_of (domCache st) (generateHtmlHash html) = Some d"
  shows "fst (getElemsDom parse html st) =
           js_slice (fst (map_elemToElem d (findMeaningfulElements d) st)) 0 50"
  using assms by (simp add: getElemsDom_def Let_def case_prod_beta)

lemma getElemsDom_parse_fails:
  "map_of (domCache st) (generateHtmlHash html) = None \<Longrightarrow> parse html = None \<Longrightarrow>
   getElemsDom parse html st = ([], st)"
  by (simp add: getElemsDom_def Let_def)

lemma getElemsDom_length: "length (fst (getElemsDom parse html st)) \<le> 50"
  by (auto simp add: getElemsDom_def Let_def js_slice_50 split: option.splits prod.splits)

lemma getElems_fst:
  "fst (getElems parse html st) =
     (if fst (getElemsDom parse html st) = [] then getElemsRegex html
      else fst (getElemsDom parse html st))"
  by (simp add: getElems_def Let_def split: prod.splits)

lemma tiny_small:
  "length html \<le> 5000000 \<Longrightarrow>
   fst (tiny parse now html opts st) =
     Inr \<lparr>title = getTitle html,
          snap_text = js_slice (getText html) 0 (maxText_or_default opts),
          elems = js_slice (fst (getElems parse html (cleanupCaches now st))) 0
                    (maxElems_or_default opts)\<rparr>"
  by (simp add: tiny_def Let_def split: prod.splits)

lemma tiny_large:
  "5000000 < length html \<Longrightarrow>
   fst (tiny parse now html opts st) = Inl (Error ''HTML too large for processing'')"
  by (simp add: tiny_def Let_def)

lemma cleanupCaches_initial [simp]:
  "domCache (cleanupCaches now (initial_caches t)) = []"
  "selectorCache (cleanupCaches now (initial_caches t)) = []"
  by (simp_all add: cleanupCaches_def initial_caches_def MAX_CACHE_SIZE_def)


lemma getElemsRegex_sel:
  "e \<in> set (getElemsRegex html) \<Longrightarrow> sel e = ''button'' \<or> sel e = ''a'' \<or> sel e = ''input''"
  by (auto simp add: getElemsRegex_def Let_def split: if_splits)

lemma map_of_foldl_delete:
  "map_of (foldl (\<lambda>m key. AList.delete key m) al ks) k =
     (if k \<in> set ks then None else map_of al k)"
  by (induction ks arbitrary: al) (auto simp add: delete_conv')

lemma cleanupCaches_domCache_lookup:
  "map_of (domCache (cleanupCaches now st)) k = None
   \<or> map_of (domCache (cleanupCaches now st)) k = map_of (domCache st) k"
  by (simp add: cleanupCaches_def map_of_foldl_delete)

lemma getElemsDom_consistent:
  assumes "parse html = Some d"
    and "map_of (domCache st) (generateHtmlHash html) = None
         \<or> map_of (domCache st) (generateHtmlHash html) = Some d"
  shows "fst (getElemsDom parse html st) =
           js_slice (fst (map_elemToElem d (findMeaningfulElements d) st)) 0 50"
  using assms getElemsDom_miss [of st html parse d] getElemsDom_hit [of st html d parse]
  by blast

lemma map_elemToElem_but_sel:
  "map (\<lambda>x. x\<lparr>sel := s0\<rparr>) (fst (map_elemToElem d es st)) =
     map (\<lambda>e. (elemToElem_without_caches d e)\<lparr>sel := s0\<rparr>) es"
proof (induction es arbitrary: st)
  case Nil
  then show ?case by simp
next
  case (Cons e es)
  show ?case
    unfolding map_elemToElem_Cons_fst list.map Cons.IH elemToElem_fst by simp
qed

lemma map_elemToElem_type:
  "map elem_type (fst (map_elemToElem d es st)) =
     map (\<lambda>e. elem_type (elemToElem_without_caches d e)) es"
  using arg_cong [OF map_elemToElem_but_sel [of "[]" d es st], of "map elem_type"]
  by (simp add: comp_def)

lemma map_elemToElem_text:
  "map elem_text (fst (map_elemToElem d es st)) =
     map (\<lambda>e. elem_text (elemToElem_without_caches d e)) es"
  using arg_cong [OF map_elemToElem_but_sel [of "[]" d es st], of "map elem_text"]
  by (simp add: comp_def)

section \<open>The login page\<close>

lemma login_title: "getTitle login_html = ''Login''"
  by code_simp

lemma login_text: "getText login_html = ''Login Sign In''"
  by code_simp

lemma login_found: "findMeaningfulElements login_doc = [[2, 0, 1], [0, 0, 1], [1, 0, 1]]"
  by code_simp

lemma login_converted:
  "fst (map_elemToElem login_doc [[2, 0, 1], [0, 0, 1], [1, 0, 1]] (initial_caches 0)) =
     elems login_snapshot"
  by code_simp

lemma login_length: "length login_html \<le> 5000000"
  by (simp add: login_html_def)

lemma map_elemToElem_initial:
  "selectorCache st = [] \<Longrightarrow>
   fst (map_elemToElem d es st) = fst (map_elemToElem d es (initial_caches 0))"
  using map_elemToElem_selectorCache_only [of st "initial_caches 0" d es]
  by (simp add: initial_caches_def)

lemma login_dom_initial:
  assumes "selectorCache st = []" and "domCache st = []"
  shows "fst (getElemsDom login_parse login_html st) = elems login_snapshot"
proof -
  have miss: "map_of (domCache st) (generateHtmlHash login_html) = None"
    using assms by simp
  have parsed: "login_parse login_html = Some login_doc"
    by (simp add: login_parse_def)
  have "fst (getElemsDom login_parse login_html st) =
          js_slice (fst (map_elemToElem login_doc (findMeaningfulElements login_doc) st)) 0 50"
    using miss parsed by (rule getElemsDom_miss [where parse = login_parse and html = login_html])
  also have "\<dots> = js_slice (elems login_snapshot) 0 50"
    by (simp only: login_found map_elemToElem_initial [OF assms(1)] login_converted)
  also have "\<dots> = elems login_snapshot"
    by (simp add: login_snapshot_def js_slice_def)
  finally show ?thesis .
qed

lemma login_elems_initial:
  assumes "selectorCache st = []" and "domCache st = []"
  shows "fst (getElems login_parse login_html st) = elems login_snapshot"
  unfolding getElems_fst login_dom_initial [OF assms] by (simp add: login_snapshot_def)

lemma login_default:
  "fst (tiny login_parse 0 login_html default_opts (initial_caches 0)) = Inr login_snapshot"
proof -
  have "fst (getElems login_parse login_html (cleanupCaches 0 (initial_caches 0))) =
          elems login_snapshot"
    by (rule login_elems_initial) simp_all
  then have "fst (tiny login_parse 0 login_html default_opts (initial_caches 0)) =
          Inr \<lparr>title = ''Login'', snap_text = js_slice ''Login Sign In'' 0 1000,
            elems = js_slice (elems login_snapshot) 0 15\<rparr>"
    by (simp add: tiny_small login_length login_title login_text default_opts_def
        maxText_or_default_def maxElems_or_default_def)
  then show ?thesis
    by (simp add: login_snapshot_def js_slice_def)
qed

lemma login_small:
  "fst (tiny login_parse 0 login_html small_opts (initial_caches 0)) =
     Inr \<lparr>title = ''Login'', snap_text = ''Login'', elems = take 2 (elems login_snapshot)\<rparr>"
proof -
  have "fst (getElems login_parse login_html (cleanupCaches 0 (initial_caches 0))) =
          elems login_snapshot"
    by (rule login_elems_initial) simp_all
  then show ?thesis
    by (simp add: tiny_small login_length login_title login_text small_opts_def
        maxText_or_default_def maxElems_or_default_def js_slice_0_take)
qed

lemma login_converted_without_caches:
  "map (elemToElem_without_caches login_doc) [[2, 0, 1], [0, 0, 1], [1, 0, 1]] =
     elems login_snapshot"
  by code_simp

section \<open>Other pages\<close>

lemma empty_title: "getTitle [] = ''Page''"
  by code_simp

lemma empty_text: "getText [] = []"
  by code_simp

lemma empty_regex: "getElemsRegex [] = []"
  by code_simp

lemma go_regex: "getElemsRegex ''<button>Go</button>'' = [go_button]"
  by code_simp

lemma tiny_initial:
  assumes "parse html = Some d" and "length html \<le> 5000000"
  shows "fst (tiny parse now html opts (initial_caches t)) =
     Inr \<lparr>title = getTitle html,
          snap_text = js_slice (getText html) 0 (maxText_or_default opts),
          elems =
            js_slice
              (if js_slice (fst (map_elemToElem d (findMeaningfulElements d) (initial_caches 0))) 0 50
                  = []
               then getElemsRegex html
               else js_slice
                      (fst (map_elemToElem d (findMeaningfulElements d) (initial_caches 0))) 0 50)
              0 (maxElems_or_default opts)\<rparr>"
proof -
  let ?st = "cleanupCaches now (initial_caches t)"
  have miss: "map_of (domCache ?st) (generateHtmlHash html) = None"
    by simp
  have "fst (getElemsDom parse html ?st) =
          js_slice (fst (map_elemToElem d (findMeaningfulElements d) ?st)) 0 50"
    using miss assms(1) by (rule getElemsDom_miss [where parse = parse and html = html])
  also have "\<dots> = js_slice (fst (map_elemToElem d (findMeaningfulElements d) (initial_caches 0))) 0 50"
    by (simp only: map_elemToElem_initial [of ?st, OF cleanupCaches_initial(2)])
  finally show ?thesis
    by (simp add: tiny_small assms(2) getElems_fst)
qed

lemma tiny_initial_fails:
  assumes "parse html = None" and "length html \<le> 5000000"
  shows "fst (tiny parse now html opts (initial_caches t)) =
     Inr \<lparr>title = getTitle html,
          snap_text = js_slice (getText html) 0 (maxText_or_default opts),
          elems = js_slice (getElemsRegex html) 0 (maxElems_or_default opts)\<rparr>"
  using assms by (simp add: tiny_small getElems_fst getElemsDom_parse_fails)

section \<open>Unwrapping wrappers\<close>

lemma unwrap_while_not_wrapper:
  "\<not> isUselessWrapper d e \<Longrightarrow> unwrap_while d e depth = e"
  by simp

lemma unwrap_for_set:
  "set (unwrap_for d acc es) = set acc \<union> (\<lambda>e. unwrap_while d e 0) ` set es"
  by (induction es arbitrary: acc) (auto simp add: Let_def simp del: unwrap_while.simps)

lemma unwrap_for_distinct:
  "distinct acc \<Longrightarrow> distinct (unwrap_for d acc es)"
  by (induction es arbitrary: acc) (auto simp add: Let_def simp del: unwrap_while.simps)

lemma unwrap_for_fixed:
  "distinct (acc @ ys) \<Longrightarrow> \<forall>y \<in> set ys. \<not> isUselessWrapper d y \<Longrightarrow>
   unwrap_for d acc ys = acc @ ys"
proof (induction ys arbitrary: acc)
  case Nil
  then show ?case by simp
next
  case (Cons y ys)
  have y: "unwrap_while d y 0 = y"
    using Cons.prems(2) by (simp add: unwrap_while_not_wrapper)
  have "y \<notin> set acc" using Cons.prems(1) by auto
  moreover have "distinct ((acc @ [y]) @ ys)" using Cons.prems(1) by auto
  moreover have "\<forall>z \<in> set ys. \<not> isUselessWrapper d z" using Cons.prems(2) by simp
  ultimately show ?case
    using Cons.IH [of "acc @ [y]"] y by (simp add: Let_def del: unwrap_while.simps)
qed

text \<open>
  Claim C6, as amended. The pass follows a chain of wrappers for at most five steps, so
  it is idempotent on the lists where that is enough: if every element of the list
  reaches an element that is no useless wrapper within the five steps of the loop, then
  applying \<open>unwrapUselessWrappers\<close> to its own output gives that output again.
\<close>

theorem unwrap_idempotent_within_depth:
  assumes "\<forall>e \<in> set es. \<not> isUselessWrapper d (unwrap_while d e 0)"
  shows "unwrapUselessWrappers d (unwrapUselessWrappers d es) = unwrapUselessWrappers d es"
proof -
  let ?ys = "unwrap_for d [] es"
  have "distinct ([] @ ?ys)" by (simp add: unwrap_for_distinct)
  moreover have "\<forall>y \<in> set ?ys. \<not> isUselessWrapper d y"
    using assms by (auto simp add: unwrap_for_set simp del: unwrap_while.simps)
  ultimately have "unwrap_for d [] ?ys = [] @ ?ys" by (rule unwrap_for_fixed)
  then show ?thesis by (simp add: unwrapUselessWrappers_def)
qed

text \<open>
  Claim C6 as stated fails. On a button inside six bare \<open>div\<close> elements the first
  pass stops at the sixth \<open>div\<close>, which is still a useless wrapper, and a second pass
  goes on to the button.
\<close>

theorem unwrap_not_idempotent_counterexample:
  "unwrapUselessWrappers six_wrappers_doc (unwrapUselessWrappers six_wrappers_doc [[0, 1]])
     \<noteq> unwrapUselessWrappers six_wrappers_doc [[0, 1]]"
  by code_simp

text \<open>
  The amended claim at the second \<open>div\<close> and the button of that page: both reach the
  button, and a second pass changes nothing.
\<close>

theorem unwrap_idempotent_within_depth_witness:
  "list_all (\<lambda>e. \<not> isUselessWrapper six_wrappers_doc (unwrap_while six_wrappers_doc e 0))
     [[0, 0, 1], [0, 0, 0, 0, 0, 0, 0, 1]]
   \<and> unwrapUselessWrappers six_wrappers_doc
        (unwrapUselessWrappers six_wrappers_doc [[0, 0, 1], [0, 0, 0, 0, 0, 0, 0, 1]]) =
      unwrapUselessWrappers six_wrappers_doc [[0, 0, 1], [0, 0, 0, 0, 0, 0, 0, 1]]
   \<and> unwrapUselessWrappers six_wrappers_doc [[0, 0, 1], [0, 0, 0, 0, 0, 0, 0, 1]] =
        [[0, 0, 0, 0, 0, 0, 0, 1]]"
proof -
  have h: "list_all (\<lambda>e. \<not> isUselessWrapper six_wrappers_doc (unwrap_while six_wrappers_doc e 0))
     [[0, 0, 1], [0, 0, 0, 0, 0, 0, 0, 1]]"
    by code_simp
  have v: "unwrapUselessWrappers six_wrappers_doc [[0, 0, 1], [0, 0, 0, 0, 0, 0, 0, 1]] =
        [[0, 0, 0, 0, 0, 0, 0, 1]]"
    by code_simp
  from h have "\<forall>e \<in> set [[0, 0, 1], [0, 0, 0, 0, 0, 0, 0, 1]].
      \<not> isUselessWrapper six_wrappers_doc (unwrap_while six_wrappers_doc e 0)"
    unfolding list_all_iff .
  from unwrap_idempotent_within_depth [OF this] h v show ?thesis by simp
qed

section \<open>The claims about the extractor\<close>

text \<open>
  Claim C1. For a page of at most 5,000,000 characters and options whose \<open>maxText\<close>
  and \<open>maxElems\<close> (1000 and 15 when absent) are positive, \<open>tiny\<close> returns a snapshot
  whose text has at most \<open>maxText\<close> characters and whose element list has at most
  \<open>maxElems\<close> entries.
\<close>

theorem tiny_bounds:
  assumes "length html \<le> 5000000"
    and "0 < maxText_or_default opts"
    and "0 < maxElems_or_default opts"
  shows "case fst (tiny parse now html opts st) of
           Inl err \<Rightarrow> False
         | Inr snap \<Rightarrow>
             int (length (snap_text snap)) \<le> maxText_or_default opts
             \<and> int (length (elems snap)) \<le> maxElems_or_default opts"
  using assms by (simp add: tiny_small js_slice_0_length)

text \<open>
  Claim C1 on the login page with \<open>maxText = 5\<close> and \<open>maxElems = 2\<close>: the text is cut to
  five characters and the three elements to two.
\<close>

theorem tiny_bounds_witness:
  "length login_html \<le> 5000000
   \<and> 0 < maxText_or_default small_opts
   \<and> 0 < maxElems_or_default small_opts
   \<and> (case fst (tiny login_parse 0 login_html small_opts (initial_caches 0)) of
         Inl err \<Rightarrow> False
       | Inr snap \<Rightarrow>
           int (length (snap_text snap)) \<le> maxText_or_default small_opts
           \<and> int (length (elems snap)) \<le> maxElems_or_default small_opts)
   \<and> fst (tiny login_parse 0 login_html small_opts (initial_caches 0)) =
       Inr \<lparr>title = ''Login'', snap_text = ''Login'', elems = take 2 (elems login_snapshot)\<rparr>"
proof -
  have h: "0 < maxText_or_default small_opts" "0 < maxElems_or_default small_opts"
    by (simp_all add: small_opts_def maxText_or_default_def maxElems_or_default_def)
  from tiny_bounds [OF login_length h, of login_parse 0 "initial_caches 0"]
  show ?thesis using login_length h login_small by blast
qed

text \<open>
  Claim C2 fails on the code in its second half. The first half is right: the error of
  the size check is thrown exactly for a page of more than 5,000,000 characters, as the
  lemma below says. But a page below the limit does not always get a snapshot: the
  document is built with \<open>runScripts: 'dangerously'\<close>, against the comment beside it, so a
  page whose script never ends keeps the call from returning, and a page whose script
  makes a DOM operation throw \<open>null\<close> makes the \<open>catch\<close> block throw a \<open>TypeError\<close> out of
  \<open>tiny\<close>. Such pages are outside the model, which is why the lemma speaks of the error
  of the size check only.
\<close>

lemma size_check_exact:
  "(fst (tiny parse now html opts st) = Inl (Error ''HTML too large for processing''))
     = (5000000 < length html)"
  by (cases "5000000 < length html") (simp_all add: tiny_large tiny_small)

text \<open>
  Claim C8. The elements of a call are those of the DOM pass when it finds at least one,
  and those of the regular expressions otherwise, never a mixture; every element of the
  regular expressions has the selector \<open>button\<close>, \<open>a\<close> or \<open>input\<close>; and the snapshot holds
  the first \<open>maxElems\<close> of these elements.
\<close>

theorem elements_from_one_strategy:
  "fst (getElems parse html st) =
     (if fst (getElemsDom parse html st) = [] then getElemsRegex html
      else fst (getElemsDom parse html st))
   \<and> (\<forall>e \<in> set (getElemsRegex html). sel e = ''button'' \<or> sel e = ''a'' \<or> sel e = ''input'')
   \<and> (length html \<le> 5000000 \<longrightarrow>
        (case fst (tiny parse now html opts st) of
           Inl err \<Rightarrow> False
         | Inr snap \<Rightarrow>
             elems snap =
               js_slice (fst (getElems parse html (cleanupCaches now st))) 0
                 (maxElems_or_default opts)))"
  by (simp add: getElems_fst getElemsRegex_sel tiny_small)

text \<open>
  Claim C8 at a page with one button, read by the regular expressions, and at the login
  page, read by the DOM pass.
\<close>

theorem elements_from_one_strategy_witness:
  "go_button \<in> set (getElemsRegex ''<button>Go</button>'')
   \<and> sel go_button = ''button''
   \<and> length login_html \<le> 5000000
   \<and> (case fst (tiny login_parse 0 login_html default_opts (initial_caches 0)) of
         Inl err \<Rightarrow> False
       | Inr snap \<Rightarrow>
           elems snap =
             js_slice (fst (getElems login_parse login_html (cleanupCaches 0 (initial_caches 0))))
               0 (maxElems_or_default default_opts))
   \<and> fst (getElemsDom login_parse login_html (cleanupCaches 0 (initial_caches 0))) =
       elems login_snapshot
   \<and> fst (getElems login_parse login_html (cleanupCaches 0 (initial_caches 0))) =
       elems login_snapshot"
proof -
  have g: "go_button \<in> set (getElemsRegex ''<button>Go</button>'')"
    by (simp add: go_regex)
  have d: "fst (getElemsDom login_parse login_html (cleanupCaches 0 (initial_caches 0))) =
       elems login_snapshot"
    by (rule login_dom_initial) simp_all
  have e: "fst (getElems login_parse login_html (cleanupCaches 0 (initial_caches 0))) =
       elems login_snapshot"
    by (rule login_elems_initial) simp_all
  note t1 = elements_from_one_strategy [of failing_parse "''<button>Go</button>''"
      "initial_caches 0" 0 default_opts]
  note t2 = elements_from_one_strategy [of login_parse login_html
      "cleanupCaches 0 (initial_caches 0)" 0 default_opts]
  note t3 = elements_from_one_strategy [of login_parse login_html "initial_caches 0" 0
      default_opts]
  from t1 g have s: "sel go_button = ''button''"
    by (auto simp add: go_button_def)
  from t3 login_length have
    "case fst (tiny login_parse 0 login_html default_opts (initial_caches 0)) of
         Inl err \<Rightarrow> False
       | Inr snap \<Rightarrow>
           elems snap =
             js_slice (fst (getElems login_parse login_html (cleanupCaches 0 (initial_caches 0))))
               0 (maxElems_or_default default_opts)"
    by blast
  with g s login_length d e show ?thesis by blast
qed

lemma many_inputs_found: "findMeaningfulElements many_inputs_doc = []"
  by code_simp

lemma many_inputs_regex: "length (getElemsRegex many_inputs_html) = 51"
  by code_simp

lemma many_inputs_length: "length many_inputs_html \<le> 5000000"
  by (simp add: many_inputs_html_def length_concat sum_list_replicate)

lemma many_inputs_dom:
  assumes "domCache st = []"
  shows "fst (getElemsDom many_inputs_parse many_inputs_html st) = []"
proof -
  have miss: "map_of (domCache st) (generateHtmlHash many_inputs_html) = None"
    using assms by simp
  have parsed: "many_inputs_parse many_inputs_html = Some many_inputs_doc"
    by (simp add: many_inputs_parse_def)
  show ?thesis
    unfolding getElemsDom_miss [where parse = many_inputs_parse, OF miss parsed] many_inputs_found
    by simp
qed

text \<open>
  Claim C9. When the DOM pass finds an element the snapshot has at most 50 elements,
  whatever \<open>maxElems\<close> is. When it finds none the snapshot holds the first \<open>maxElems\<close>
  elements of the regular expressions, with no other bound: a page of 51 \<open>input\<close> tags
  without a type, which the DOM pass does not select, gives 51 elements under
  \<open>maxElems = 100\<close>.
\<close>

theorem dom_path_capped_at_50:
  "(length html \<le> 5000000 \<and> fst (getElemsDom parse html (cleanupCaches now st)) \<noteq> [] \<longrightarrow>
      (case fst (tiny parse now html opts st) of
         Inl err \<Rightarrow> False
       | Inr snap \<Rightarrow> length (elems snap) \<le> 50))
   \<and> (length html \<le> 5000000 \<and> fst (getElemsDom parse html (cleanupCaches now st)) = [] \<longrightarrow>
      (case fst (tiny parse now html opts st) of
         Inl err \<Rightarrow> False
       | Inr snap \<Rightarrow> elems snap = js_slice (getElemsRegex html) 0 (maxElems_or_default opts)))
   \<and> (case fst (tiny many_inputs_parse 0 many_inputs_html hundred_opts (initial_caches 0)) of
         Inl err \<Rightarrow> False
       | Inr snap \<Rightarrow> length (elems snap) = 51)"
proof -
  have le: "length (js_slice xs 0 n) \<le> length xs" for xs :: "Elem list" and n
    by (simp add: js_slice_def Let_def)
  have a: "length html \<le> 5000000 \<and> fst (getElemsDom parse html (cleanupCaches now st)) \<noteq> [] \<longrightarrow>
      (case fst (tiny parse now html opts st) of
         Inl err \<Rightarrow> False
       | Inr snap \<Rightarrow> length (elems snap) \<le> 50)"
    using le [of "fst (getElemsDom parse html (cleanupCaches now st))" "maxElems_or_default opts"]
      getElemsDom_length [of parse html "cleanupCaches now st"]
    by (simp add: tiny_small getElems_fst)
  have b: "length html \<le> 5000000 \<and> fst (getElemsDom parse html (cleanupCaches now st)) = [] \<longrightarrow>
      (case fst (tiny parse now html opts st) of
         Inl err \<Rightarrow> False
       | Inr snap \<Rightarrow> elems snap = js_slice (getElemsRegex html) 0 (maxElems_or_default opts))"
    by (simp add: tiny_small getElems_fst)
  have "fst (getElemsDom many_inputs_parse many_inputs_html (cleanupCaches 0 (initial_caches 0))) = []"
    by (rule many_inputs_dom) simp
  then have c: "case fst (tiny many_inputs_parse 0 many_inputs_html hundred_opts (initial_caches 0)) of
         Inl err \<Rightarrow> False
       | Inr snap \<Rightarrow> length (elems snap) = 51"
    by (simp add: tiny_small many_inputs_length getElems_fst js_slice_0_take many_inputs_regex
        hundred_opts_def maxElems_or_default_def)
  from a b c show ?thesis by blast
qed

text \<open>
  Claim C9 at the login page, where the DOM pass finds the elements, and at the page of
  51 inputs, where it finds none.
\<close>

theorem dom_path_capped_at_50_witness:
  "length login_html \<le> 5000000
   \<and> fst (getElemsDom login_parse login_html (cleanupCaches 0 (initial_caches 0))) \<noteq> []
   \<and> (case fst (tiny login_parse 0 login_html default_opts (initial_caches 0)) of
         Inl err \<Rightarrow> False
       | Inr snap \<Rightarrow> length (elems snap) \<le> 50)
   \<and> length many_inputs_html \<le> 5000000
   \<and> fst (getElemsDom many_inputs_parse many_inputs_html (cleanupCaches 0 (initial_caches 0))) = []
   \<and> (case fst (tiny many_inputs_parse 0 many_inputs_html hundred_opts (initial_caches 0)) of
         Inl err \<Rightarrow> False
       | Inr snap \<Rightarrow>
           elems snap = js_slice (getElemsRegex many_inputs_html) 0 (maxElems_or_default hundred_opts))"
proof -
  have d: "fst (getElemsDom login_parse login_html (cleanupCaches 0 (initial_caches 0))) \<noteq> []"
    by (simp add: login_dom_initial login_snapshot_def)
  have m: "fst (getElemsDom many_inputs_parse many_inputs_html (cleanupCaches 0 (initial_caches 0))) = []"
    by (rule many_inputs_dom) simp
  note t1 = dom_path_capped_at_50 [of login_html login_parse 0 "initial_caches 0" default_opts]
  note t2 = dom_path_capped_at_50 [of many_inputs_html many_inputs_parse 0 "initial_caches 0"
      hundred_opts]
  from t1 login_length d have 1:
    "case fst (tiny login_parse 0 login_html default_opts (initial_caches 0)) of
         Inl err \<Rightarrow> False
       | Inr snap \<Rightarrow> length (elems snap) \<le> 50"
    by blast
  from t2 many_inputs_length m have 2:
    "case fst (tiny many_inputs_parse 0 many_inputs_html hundred_opts (initial_caches 0)) of
         Inl err \<Rightarrow> False
       | Inr snap \<Rightarrow>
           elems snap = js_slice (getElemsRegex many_inputs_html) 0 (maxElems_or_default hundred_opts)"
    by blast
  from login_length d 1 many_inputs_length m 2 show ?thesis by blast
qed

text \<open>
  Claim C3, as amended. For the login page of the scenario and the default options,
  whenever the parser builds the document of that page and the document cache holds
  nothing or that document under the fingerprint of the page, the snapshot has the
  title \<open>Login\<close> and exactly three elements, of the kinds button, input, input in this
  order (the order of the selector list, which asks for buttons first), with the
  labels \<open>Sign In\<close>, \<open>Username\<close> and \<open>Password\<close>.
\<close>

theorem login_scenario:
  assumes "parse login_html = Some login_doc"
    and "map_of (domCache st) (generateHtmlHash login_html) = None
         \<or> map_of (domCache st) (generateHtmlHash login_html) = Some login_doc"
  shows "case fst (tiny parse now login_html default_opts st) of
           Inl err \<Rightarrow> False
         | Inr snap \<Rightarrow>
             title snap = ''Login''
             \<and> map elem_type (elems snap) = [Btn, Input, Input]
             \<and> map elem_text (elems snap) = [''Sign In'', ''Username'', ''Password'']"
proof -
  let ?st = "cleanupCaches now st"
  define found where
    "found = fst (map_elemToElem login_doc [[2, 0, 1], [0, 0, 1], [1, 0, 1]] ?st)"
  have c: "map_of (domCache ?st) (generateHtmlHash login_html) = None
         \<or> map_of (domCache ?st) (generateHtmlHash login_html) = Some login_doc"
    using assms(2) cleanupCaches_domCache_lookup [of now st "generateHtmlHash login_html"]
    by auto
  have ty: "map elem_type found = [Btn, Input, Input]"
    unfolding found_def map_elemToElem_type
    using arg_cong [OF login_converted_without_caches, of "map elem_type"]
    by (simp add: login_snapshot_def)
  have tx: "map elem_text found = [''Sign In'', ''Username'', ''Password'']"
    unfolding found_def map_elemToElem_text
    using arg_cong [OF login_converted_without_caches, of "map elem_text"]
    by (simp add: login_snapshot_def)
  have len: "length found = 3"
    using arg_cong [OF ty, of length] by simp
  have "fst (getElemsDom parse login_html ?st) = js_slice found 0 50"
    unfolding getElemsDom_consistent [where parse = parse and html = login_html, OF assms(1) c]
      login_found found_def ..
  then have dom: "fst (getElemsDom parse login_html ?st) = found"
    using len by (simp add: js_slice_0_take)
  have elems: "fst (getElems parse login_html ?st) = found"
    unfolding getElems_fst dom using len by auto
  have sl: "js_slice found 0 15 = found"
    using len by (simp add: js_slice_0_take)
  show ?thesis
    using ty tx
    by (simp add: tiny_small login_length login_title elems sl default_opts_def
        maxElems_or_default_def)
qed

text \<open>Claim C3 as amended, at the first call of a process.\<close>

theorem login_scenario_witness:
  "login_parse login_html = Some login_doc
   \<and> map_of (domCache (initial_caches 0)) (generateHtmlHash login_html) = None
   \<and> (case fst (tiny login_parse 0 login_html default_opts (initial_caches 0)) of
         Inl err \<Rightarrow> False
       | Inr snap \<Rightarrow>
           title snap = ''Login''
           \<and> map elem_type (elems snap) = [Btn, Input, Input]
           \<and> map elem_text (elems snap) = [''Sign In'', ''Username'', ''Password''])"
proof -
  have p: "login_parse login_html = Some login_doc"
    by (simp add: login_parse_def)
  have m: "map_of (domCache (initial_caches 0)) (generateHtmlHash login_html) = None"
    by (simp add: initial_caches_def)
  from login_scenario [of login_parse "initial_caches 0" 0, OF p] m p show ?thesis
    by blast
qed

text \<open>
  Claim C3 as stated fails: the kinds of the three elements are not input, input, button
  in this order. The whole snapshot of the first call is \<open>login_snapshot\<close>, with the
  button first.
\<close>

theorem login_kinds_counterexample:
  "fst (tiny login_parse 0 login_html default_opts (initial_caches 0)) = Inr login_snapshot
   \<and> map elem_type (elems login_snapshot) \<noteq> [Input, Input, Btn]"
  by (simp add: login_default) (simp add: login_snapshot_def)

lemma long_placeholder_parts:
  "getTitle long_placeholder_html = ''Page''"
  "getText long_placeholder_html = []"
  "getElemsRegex long_placeholder_html = [long_placeholder_elem_regex]"
  "fst (map_elemToElem long_placeholder_doc (findMeaningfulElements long_placeholder_doc)
     (initial_caches 0)) = [long_placeholder_elem_dom]"
  by code_simp+

text \<open>
  Claim C4 fails on the code, on both passes. The labels taken from the visible text
  are cut to 30 characters, but the label of an \<open>input\<close> is its placeholder (or its
  name) as it stands: a page with one input whose placeholder has 40 characters gives
  an element with a label of 40 characters, from the DOM pass and, when the parser
  throws, from the regular expressions.
\<close>

theorem input_label_not_truncated:
  "fst (tiny long_placeholder_parse 0 long_placeholder_html default_opts (initial_caches 0)) =
     Inr \<lparr>title = ''Page'', snap_text = [], elems = [long_placeholder_elem_dom]\<rparr>
   \<and> fst (tiny failing_parse 0 long_placeholder_html default_opts (initial_caches 0)) =
     Inr \<lparr>title = ''Page'', snap_text = [], elems = [long_placeholder_elem_regex]\<rparr>
   \<and> length (elem_text long_placeholder_elem_dom) = 40
   \<and> length (elem_text long_placeholder_elem_regex) = 40"
proof -
  have p: "long_placeholder_parse long_placeholder_html = Some long_placeholder_doc"
    by (simp add: long_placeholder_parse_def)
  have f: "failing_parse long_placeholder_html = None"
    by (simp add: failing_parse_def)
  have l: "length long_placeholder_html \<le> 5000000"
    by (simp add: long_placeholder_html_def)
  have s: "js_slice [x] 0 50 = [x]" "js_slice [x] 0 15 = [x]" for x :: Elem
    by (simp_all add: js_slice_def)
  show ?thesis
    unfolding tiny_initial [where parse = long_placeholder_parse
        and html = long_placeholder_html, OF p l]
      tiny_initial_fails [where parse = failing_parse and html = long_placeholder_html, OF f l]
      long_placeholder_parts
    by (simp add: s default_opts_def maxElems_or_default_def long_placeholder_elem_dom_def
        long_placeholder_elem_regex_def)
qed

section \<open>The claims about selectors and caches\<close>

lemma js_join_empty_Cons: "js_join [] (x # xs) = x @ concat xs"
proof -
  have m: "map (\<lambda>z. [] @ z) ys = ys" for ys :: "'a list list"
    by (induction ys) simp_all
  show ?thesis by (simp add: js_join_def m)
qed




































section \<open>The claims about restoring\<close>

subsection \<open>Escaping\<close>

lemma replace_char_removes:
  "c \<notin> set rep \<Longrightarrow> c \<notin> set (concat (map (\<lambda>x. if x = c then rep else [x]) s))"
  by (induction s) auto

lemma replace_char_keeps_out:
  "c' \<notin> set s \<Longrightarrow> c' \<notin> set rep \<Longrightarrow>
   c' \<notin> set (concat (map (\<lambda>x. if x = c then rep else [x]) s))"
  by (induction s) auto

lemma escapeHtml_no_markup:
  "CHR ''<'' \<notin> set (escapeHtml s)"
  "CHR ''>'' \<notin> set (escapeHtml s)"
  "CHR 0x22 \<notin> set (escapeHtml s)"
  "CHR 0x27 \<notin> set (escapeHtml s)"
  unfolding escapeHtml_def Let_def
  by (intro replace_char_keeps_out replace_char_removes; simp)+

subsection \<open>Where an element is rendered\<close>

lemma sublist_in_context: "sublist x y \<Longrightarrow> sublist x (a @ y @ b)"
  by (meson sublist_appendI sublist_order.order_trans)

lemma sublist_in_suffix: "sublist x y \<Longrightarrow> sublist x (a @ y)"
  using sublist_in_context [of x y a "[]"] by simp

lemma sublist_js_join: "x \<in> set xs \<Longrightarrow> sublist x (js_join sep xs)"
proof (induction xs)
  case Nil
  then show ?case by simp
next
  case (Cons y ys)
  show ?case
  proof (cases "x = y")
    case True
    then show ?thesis by (simp add: js_join_def)
  next
    case False
    with Cons.prems have "x \<in> set ys" by simp
    then obtain as bs where "ys = as @ x # bs" by (meson split_list)
    then have "js_join sep (y # ys) =
        (y @ concat (map (\<lambda>z. sep @ z) as) @ sep) @ x @ concat (map (\<lambda>z. sep @ z) bs)"
      by (simp add: js_join_def)
    then show ?thesis by (metis sublist_appendI)
  qed
qed

lemma elemToHtml_indent: "elemToHtml e indent = indent @ elemToHtml e []"
  by (simp add: elemToHtml_def split: ElemType.splits)

lemma elemToHtml_sublist_indent: "sublist (elemToHtml e []) (elemToHtml e indent)"
  by (subst (2) elemToHtml_indent) (rule sublist_append_leftI)

lemma elemToHtml_sublist_join:
  assumes "e \<in> set es"
  shows "sublist (elemToHtml e []) (js_join sep (map (\<lambda>elem. elemToHtml elem indent) es))"
proof -
  have "elemToHtml e indent \<in> set (map (\<lambda>elem. elemToHtml elem indent) es)"
    using assms by auto
  then have "sublist (elemToHtml e indent) (js_join sep (map (\<lambda>elem. elemToHtml elem indent) es))"
    by (rule sublist_js_join)
  then show ?thesis
    using elemToHtml_sublist_indent [of e indent] by (meson sublist_order.order_trans)
qed

lemma nav_section_renders:
  "e \<in> set es \<Longrightarrow> sublist (elemToHtml e []) (generateNavSection es)"
  unfolding generateNavSection_def Let_def
  by (intro sublist_in_suffix sublist_in_context elemToHtml_sublist_join)

lemma header_section_renders:
  "e \<in> set es \<Longrightarrow> sublist (elemToHtml e []) (generateHeaderSection es)"
  unfolding generateHeaderSection_def Let_def
  by (intro sublist_in_suffix sublist_in_context elemToHtml_sublist_join)

lemma form_section_renders:
  "e \<in> set es \<Longrightarrow> sublist (elemToHtml e []) (generateFormSection es)"
  unfolding generateFormSection_def Let_def
  by (intro sublist_in_suffix sublist_in_context elemToHtml_sublist_join)

lemma content_section_has:
  assumes "x \<in> set sections"
  shows "sublist x (''    <section>'' @ newline @ js_join newline sections @ newline
            @ ''    </section>'')"
  by (intro sublist_in_suffix sublist_in_context sublist_js_join assms)

lemma content_section_renders:
  assumes "e \<in> set es"
  shows "sublist (elemToHtml e []) (generateContentSection pageText es)"
proof -
  have ne: "length es > 0" using assms by (cases es) auto
  have "sublist (elemToHtml e []) (elemToHtml e ''        '')"
    by (rule elemToHtml_sublist_indent)
  moreover have "sublist (elemToHtml e ''        '') (generateContentSection pageText es)"
    unfolding generateContentSection_def Let_def using ne assms
    by (intro content_section_has) auto
  ultimately show ?thesis by (meson sublist_order.order_trans)
qed

lemma content_section_paragraph:
  assumes "js_trim pageText \<noteq> []"
    and "p \<in> set (js_split re_blank_line [] pageText)" and "js_trim p \<noteq> []"
  shows "sublist (''<p>'' @ escapeHtml (js_trim p) @ ''</p>'') (generateContentSection pageText es)"
proof -
  let ?line = "''      <p>'' @ escapeHtml (js_trim p) @ ''</p>''"
  have "?line = ''      '' @ (''<p>'' @ escapeHtml (js_trim p) @ ''</p>'')"
    by simp
  then have "sublist (''<p>'' @ escapeHtml (js_trim p) @ ''</p>'') ?line"
    by (metis sublist_append_leftI)
  moreover have "sublist ?line (generateContentSection pageText es)"
    unfolding generateContentSection_def Let_def using assms
    by (intro content_section_has) auto
  ultimately show ?thesis by (meson sublist_order.order_trans)
qed

lemma group_step_map:
  "map_of (AList.update c
             (the (map_of (if map_of groups c = None then AList.update c [] groups else groups) c)
                @ [elem])
             (if map_of groups c = None then AList.update c [] groups else groups)) =
     (map_of groups)(c \<mapsto> (case map_of groups c of None \<Rightarrow> [] | Some v \<Rightarrow> v) @ [elem])"
  by (cases "map_of groups c") (simp_all add: update_conv')

lemma group_into_keeps:
  "map_of groups c = Some ess \<Longrightarrow>
   \<exists>ess'. map_of (groupElementsByContext_into groups es) c = Some ess' \<and> set ess \<subseteq> set ess'"
proof (induction es arbitrary: groups ess)
  case Nil
  then show ?case by simp
next
  case (Cons elem es)
  let ?c = "js_or_opt (elem_context elem) ''main''"
  let ?g = "AList.update ?c
             (the (map_of (if map_of groups ?c = None then AList.update ?c [] groups else groups) ?c)
                @ [elem])
             (if map_of groups ?c = None then AList.update ?c [] groups else groups)"
  have "\<exists>ess1. map_of ?g c = Some ess1 \<and> set ess \<subseteq> set ess1"
    unfolding group_step_map using Cons.prems by auto
  then obtain ess1 where 1: "map_of ?g c = Some ess1" and 2: "set ess \<subseteq> set ess1" by blast
  from Cons.IH [OF 1] obtain ess' where
    "map_of (groupElementsByContext_into ?g es) c = Some ess'" "set ess1 \<subseteq> set ess'" by blast
  with 2 show ?case by (auto simp add: Let_def)
qed

lemma group_into_has:
  "e \<in> set es \<Longrightarrow>
   \<exists>ess. map_of (groupElementsByContext_into groups es) (js_or_opt (elem_context e) ''main'')
            = Some ess \<and> e \<in> set ess"
proof (induction es arbitrary: groups)
  case Nil
  then show ?case by simp
next
  case (Cons elem es)
  let ?c = "js_or_opt (elem_context elem) ''main''"
  let ?g = "AList.update ?c
             (the (map_of (if map_of groups ?c = None then AList.update ?c [] groups else groups) ?c)
                @ [elem])
             (if map_of groups ?c = None then AList.update ?c [] groups else groups)"
  show ?case
  proof (cases "e = elem")
    case True
    have "\<exists>ess1. map_of ?g ?c = Some ess1 \<and> elem \<in> set ess1"
      unfolding group_step_map by simp
    then obtain ess1 where 1: "map_of ?g ?c = Some ess1" and 2: "elem \<in> set ess1" by blast
    from group_into_keeps [OF 1, of es] 2 True show ?thesis
      by (auto simp add: Let_def)
  next
    case False
    with Cons.prems have "e \<in> set es" by simp
    from Cons.IH [OF this, of ?g] show ?thesis by (simp add: Let_def)
  qed
qed

lemma grouped:
  assumes "e \<in> set es"
  obtains ess where
    "map_of (groupElementsByContext es) (js_or_opt (elem_context e) ''main'') = Some ess"
    and "e \<in> set ess"
  using group_into_has [OF assms, of "[]"] unfolding groupElementsByContext_def by blast

lemma body_renders:
  assumes m: "map_of groups c = Some ess" and e: "e \<in> set ess"
  shows "sublist (elemToHtml e []) (generateSemanticBody groups pageText)"
proof -
  define navElems where
    "navElems = map_get_or_empty groups ''nav'' @ map_get_or_empty groups ''nav > menu''"
  define sections1 where
    "sections1 = (if map_of groups ''nav'' \<noteq> None \<or> map_of groups ''nav > menu'' \<noteq> None
             then (if length navElems > 0 then [generateNavSection navElems] else [])
             else [])"
  define sections2 where
    "sections2 = (case map_of groups ''header'' of
               Some headerElems \<Rightarrow> sections1 @ [generateHeaderSection headerElems]
             | None \<Rightarrow> sections1)"
  define formElems where
    "formElems = concat (map (map_get_or_empty groups) formContexts)"
  define mainSections1 where
    "mainSections1 = (if length formElems > 0 then [generateFormSection formElems] else [])"
  define generalElems where
    "generalElems = concat (map snd
              (filter (\<lambda>(context, es).
                   context \<notin> set ([''nav'', ''nav > menu'', ''header''] @ formContexts))
                 groups))"
  define mainSections2 where
    "mainSections2 = (if js_trim pageText \<noteq> [] \<or> length generalElems > 0
             then mainSections1 @ [generateContentSection pageText generalElems]
             else mainSections1)"
  define sections3 where
    "sections3 = (if length mainSections2 > 0
             then sections2 @ [''  <main>'' @ newline @ js_join newline mainSections2 @ newline
                               @ ''  </main>'']
             else sections2)"
  have body: "generateSemanticBody groups pageText = js_join newline sections3"
    unfolding generateSemanticBody_def Let_def sections3_def mainSections2_def generalElems_def
      mainSections1_def formElems_def sections2_def sections1_def navElems_def ..
  have in_sections: "sublist (elemToHtml e []) (js_join newline sections3)"
    if "x \<in> set sections3" "sublist (elemToHtml e []) x" for x
    using sublist_js_join [OF that(1), of newline] that(2) by (meson sublist_order.order_trans)
  have s12: "set sections1 \<subseteq> set sections2"
    unfolding sections2_def by (auto split: option.splits)
  have s23: "set sections2 \<subseteq> set sections3"
    unfolding sections3_def by auto
  have in_main: "sublist (elemToHtml e []) (js_join newline sections3)"
    if "x \<in> set mainSections2" "sublist (elemToHtml e []) x" for x
  proof -
    let ?main = "''  <main>'' @ newline @ js_join newline mainSections2 @ newline @ ''  </main>''"
    have ne: "length mainSections2 > 0" using that(1) by (cases mainSections2) auto
    have "sublist x ?main"
      by (intro sublist_in_suffix sublist_in_context sublist_js_join that(1))
    with that(2) have "sublist (elemToHtml e []) ?main" by (meson sublist_order.order_trans)
    moreover have "?main \<in> set sections3" unfolding sections3_def using ne by simp
    ultimately show ?thesis by (rule in_sections [rotated])
  qed
  have get: "map_get_or_empty groups c = ess"
    using m by (simp add: map_get_or_empty_def)
  consider (nav) "c = ''nav'' \<or> c = ''nav > menu''"
    | (header) "c = ''header''"
    | (form) "c \<in> set formContexts"
    | (general) "c \<notin> set ([''nav'', ''nav > menu'', ''header''] @ formContexts)"
    by auto
  then show ?thesis
  proof cases
    case nav
    then have en: "e \<in> set navElems"
      unfolding navElems_def using get e by auto
    then have "length navElems > 0" by (cases navElems) auto
    moreover have "map_of groups ''nav'' \<noteq> None \<or> map_of groups ''nav > menu'' \<noteq> None"
      using nav m by auto
    ultimately have "generateNavSection navElems \<in> set sections1"
      unfolding sections1_def by simp
    with s12 s23 have "generateNavSection navElems \<in> set sections3" by blast
    then show ?thesis
      unfolding body by (rule in_sections) (rule nav_section_renders [OF en])
  next
    case header
    with m have "generateHeaderSection ess \<in> set sections2"
      unfolding sections2_def by simp
    with s23 have "generateHeaderSection ess \<in> set sections3" by blast
    then show ?thesis
      unfolding body by (rule in_sections) (rule header_section_renders [OF e])
  next
    case form
    then have ef: "e \<in> set formElems"
      unfolding formElems_def using get e by auto
    then have "length formElems > 0" by (cases formElems) auto
    then have "generateFormSection formElems \<in> set mainSections1"
      unfolding mainSections1_def by simp
    then have "generateFormSection formElems \<in> set mainSections2"
      unfolding mainSections2_def by simp
    then show ?thesis
      unfolding body by (rule in_main) (rule form_section_renders [OF ef])
  next
    case general
    have "(c, ess) \<in> set groups" using m by (rule map_of_SomeD)
    with general e have eg: "e \<in> set generalElems"
      unfolding generalElems_def by force
    then have "length generalElems > 0" by (cases generalElems) auto
    then have "generateContentSection pageText generalElems \<in> set mainSections2"
      unfolding mainSections2_def by simp
    then show ?thesis
      unfolding body by (rule in_main) (rule content_section_renders [OF eg])
  qed
qed

lemma restore_renders:
  assumes "e \<in> set (elems snapshot)"
  shows "sublist (elemToHtml e []) (restore snapshot)"
proof -
  from grouped [OF assms] obtain ess where
    m: "map_of (groupElementsByContext (elems snapshot)) (js_or_opt (elem_context e) ''main'')
          = Some ess"
    and e: "e \<in> set ess" by blast
  have "sublist (elemToHtml e [])
      (generateSemanticBody (groupElementsByContext (elems snapshot)) (snap_text snapshot))"
    using m e by (rule body_renders)
  then show ?thesis
    unfolding restore_def Let_def
    by (intro sublist_in_suffix sublist_in_context)
qed

lemma sel_in_elemToHtml:
  "sublist (''sel=\"'' @ sel e @ ''\"'') (elemToHtml e [])"
proof -
  have "\<exists>a b. elemToHtml e [] = a @ (''sel=\"'' @ sel e @ ''\"'') @ b"
  proof (cases "elem_type e")
    case Btn
    then have "elemToHtml e [] = ''<button '' @ (''sel=\"'' @ sel e @ ''\"'')
        @ (''>'' @ escapeHtml (elem_text e) @ ''</button>'')"
      by (simp add: elemToHtml_def)
    then show ?thesis by blast
  next
    case Input
    then have "elemToHtml e [] = ''<input type=\"text\" '' @ (''sel=\"'' @ sel e @ ''\"'')
        @ ('' placeholder=\"'' @ escapeHtml (elem_text e) @ ''\">'')"
      by (simp add: elemToHtml_def)
    then show ?thesis by blast
  next
    case Link
    then have "elemToHtml e [] = ''<a href=\"#\" '' @ (''sel=\"'' @ sel e @ ''\"'')
        @ (''>'' @ escapeHtml (elem_text e) @ ''</a>'')"
      by (simp add: elemToHtml_def)
    then show ?thesis by blast
  next
    case Select
    then have "elemToHtml e [] = ''<select '' @ (''sel=\"'' @ sel e @ ''\"'')
        @ (''><option>'' @ escapeHtml (elem_text e) @ ''</option></select>'')"
      by (simp add: elemToHtml_def)
    then show ?thesis by blast
  qed
  then show ?thesis by (auto simp add: sublist_def)
qed

lemma escapeHtml_append: "escapeHtml (a @ b) = escapeHtml a @ escapeHtml b"
  by (simp add: escapeHtml_def Let_def)

lemma escapeHtml_single:
  "escapeHtml [c] =
     (if c = CHR ''&'' then ''&amp;''
      else if c = CHR ''<'' then ''&lt;''
      else if c = CHR ''>'' then ''&gt;''
      else if c = CHR 0x22 then ''&quot;''
      else if c = CHR 0x27 then ''&#x27;''
      else [c])"
  by (simp add: escapeHtml_def Let_def)

lemma escapeHtml_by_char:
  "escapeHtml s =
     concat (map (\<lambda>c. if c = CHR ''&'' then ''&amp;''
                        else if c = CHR ''<'' then ''&lt;''
                        else if c = CHR ''>'' then ''&gt;''
                        else if c = CHR 0x22 then ''&quot;''
                        else if c = CHR 0x27 then ''&#x27;''
                        else [c]) s)"
proof (induction s)
  case Nil
  show ?case by (simp add: escapeHtml_def)
next
  case (Cons c s)
  have "escapeHtml (c # s) = escapeHtml [c] @ escapeHtml s"
    using escapeHtml_append [of "[c]" s] by simp
  then show ?case
    unfolding Cons.IH escapeHtml_single by simp
qed

lemma body_has_content:
  assumes "js_trim pageText \<noteq> []"
  shows "\<exists>generalElems.
           sublist (generateContentSection pageText generalElems)
             (generateSemanticBody groups pageText)"
proof -
  define generalElems where
    "generalElems = concat (map snd
              (filter (\<lambda>(context, es).
                   context \<notin> set ([''nav'', ''nav > menu'', ''header''] @ formContexts))
                 groups))"
  obtain sections2 mainSections1 where
    body: "generateSemanticBody groups pageText =
      js_join newline (sections2 @ [''  <main>'' @ newline
        @ js_join newline (mainSections1 @ [generateContentSection pageText generalElems])
        @ newline @ ''  </main>''])"
    using assms
    by (simp add: generateSemanticBody_def Let_def generalElems_def)
  let ?content = "generateContentSection pageText generalElems"
  let ?main = "''  <main>'' @ newline
        @ js_join newline (mainSections1 @ [?content]) @ newline @ ''  </main>''"
  have "sublist ?content ?main"
    by (intro sublist_in_suffix sublist_in_context sublist_js_join) simp
  moreover have "sublist ?main (js_join newline (sections2 @ [?main]))"
    by (intro sublist_js_join) simp
  ultimately show ?thesis
    unfolding body by (meson sublist_order.order_trans)
qed

lemma restore_paragraph:
  assumes "js_trim (snap_text snapshot) \<noteq> []"
    and "p \<in> set (js_split re_blank_line [] (snap_text snapshot))" and "js_trim p \<noteq> []"
  shows "sublist (''<p>'' @ escapeHtml (js_trim p) @ ''</p>'') (restore snapshot)"
proof -
  from body_has_content [OF assms(1)] obtain generalElems where
    "sublist (generateContentSection (snap_text snapshot) generalElems)
       (generateSemanticBody (groupElementsByContext (elems snapshot)) (snap_text snapshot))"
    by blast
  with content_section_paragraph [OF assms, of generalElems]
  have "sublist (''<p>'' @ escapeHtml (js_trim p) @ ''</p>'')
       (generateSemanticBody (groupElementsByContext (elems snapshot)) (snap_text snapshot))"
    by (meson sublist_order.order_trans)
  then show ?thesis
    unfolding restore_def Let_def
    by (intro sublist_in_suffix sublist_in_context)
qed

lemma restore_title:
  "prefix (''<!DOCTYPE html>'' @ newline @ ''<html>'' @ newline @ ''<head>'' @ newline
           @ ''  <title>'' @ escapeHtml (title snapshot) @ ''</title>'')
     (restore snapshot)"
  by (simp add: restore_def Let_def)

lemma restore_sel:
  assumes "e \<in> set (elems snapshot)"
  shows "sublist (''sel=\"'' @ sel e @ ''\"'') (restore snapshot)"
  using sel_in_elemToHtml [of e] restore_renders [OF assms]
  by (meson sublist_order.order_trans)

lemma input_selector_has_quote:
  assumes "tagName_lower d el = ''input''" and "getAttribute d el ''type'' = Some t"
    and "t \<noteq> []" and "\<not> isMeaningfulId (element_id d el)"
  shows "CHR 0x22 \<in> set (synthesizeSelector d el)"
  using assms
  by (auto simp add: synthesizeSelector_def Let_def js_join_empty_Cons)

text \<open>
  Claim C10. \<open>restore\<close> escapes the title, every paragraph of the text and every label
  (\<open>escapeHtml\<close> replaces each of \<open>&\<close>, \<open><\<close>, \<open>>\<close> and the two quotes by its entity, so
  that none of \<open><\<close>, \<open>>\<close> and the quotes is left), but puts the selector of every
  element between the quotes of \<open>sel="..."\<close> as it stands. So a selector with a double
  quote gives an attribute value with a bare double quote in it, and the synthesized
  selector of every \<open>input\<close> with a type and without a meaningful id has one.
\<close>

theorem restore_escapes_text_not_selectors:
  "prefix (''<!DOCTYPE html>'' @ newline @ ''<html>'' @ newline @ ''<head>'' @ newline
           @ ''  <title>'' @ escapeHtml (title snapshot) @ ''</title>'')
     (restore snapshot)
   \<and> (js_trim (snap_text snapshot) \<noteq> [] \<longrightarrow>
        (\<forall>p \<in> set (js_split re_blank_line [] (snap_text snapshot)).
           js_trim p \<noteq> [] \<longrightarrow>
           sublist (''<p>'' @ escapeHtml (js_trim p) @ ''</p>'') (restore snapshot)))
   \<and> (\<forall>e \<in> set (elems snapshot).
        sublist (elemToHtml e []) (restore snapshot)
        \<and> sublist (''sel=\"'' @ sel e @ ''\"'') (restore snapshot))
   \<and> elemToHtml elem indent =
       indent @
       (case elem_type elem of
          Btn \<Rightarrow> ''<button sel=\"'' @ sel elem @ ''\">'' @ escapeHtml (elem_text elem)
                 @ ''</button>''
        | Input \<Rightarrow> ''<input type=\"text\" sel=\"'' @ sel elem @ ''\" placeholder=\"''
                   @ escapeHtml (elem_text elem) @ ''\">''
        | Link \<Rightarrow> ''<a href=\"#\" sel=\"'' @ sel elem @ ''\">'' @ escapeHtml (elem_text elem)
                  @ ''</a>''
        | Select \<Rightarrow> ''<select sel=\"'' @ sel elem @ ''\"><option>''
                    @ escapeHtml (elem_text elem) @ ''</option></select>'')
   \<and> escapeHtml s =
       concat (map (\<lambda>c. if c = CHR ''&'' then ''&amp;''
                          else if c = CHR ''<'' then ''&lt;''
                          else if c = CHR ''>'' then ''&gt;''
                          else if c = CHR 0x22 then ''&quot;''
                          else if c = CHR 0x27 then ''&#x27;''
                          else [c]) s)
   \<and> CHR ''<'' \<notin> set (escapeHtml s) \<and> CHR ''>'' \<notin> set (escapeHtml s)
   \<and> CHR 0x22 \<notin> set (escapeHtml s) \<and> CHR 0x27 \<notin> set (escapeHtml s)
   \<and> (tagName_lower d el = ''input'' \<and> getAttribute d el ''type'' = Some t \<and> t \<noteq> []
        \<and> \<not> isMeaningfulId (element_id d el)
        \<longrightarrow> CHR 0x22 \<in> set (synthesizeSelector d el))"
proof -
  have 1: "elemToHtml elem indent =
       indent @
       (case elem_type elem of
          Btn \<Rightarrow> ''<button sel=\"'' @ sel elem @ ''\">'' @ escapeHtml (elem_text elem)
                 @ ''</button>''
        | Input \<Rightarrow> ''<input type=\"text\" sel=\"'' @ sel elem @ ''\" placeholder=\"''
                   @ escapeHtml (elem_text elem) @ ''\">''
        | Link \<Rightarrow> ''<a href=\"#\" sel=\"'' @ sel elem @ ''\">'' @ escapeHtml (elem_text elem)
                  @ ''</a>''
        | Select \<Rightarrow> ''<select sel=\"'' @ sel elem @ ''\"><option>''
                    @ escapeHtml (elem_text elem) @ ''</option></select>'')"
    by (simp add: elemToHtml_def split: ElemType.splits)
  show ?thesis
    using restore_title [of snapshot] restore_paragraph [of snapshot]
      restore_renders [of _ snapshot] restore_sel [of _ snapshot] 1
      escapeHtml_by_char [of s] escapeHtml_no_markup [of s]
      input_selector_has_quote [of d el t]
    by blast
qed

lemma tom_and_jerry_facts:
  "js_trim (snap_text tom_and_jerry) \<noteq> []"
  "''1 < 2'' \<in> set (js_split re_blank_line [] (snap_text tom_and_jerry))"
  "js_trim ''1 < 2'' = ''1 < 2''"
  "login_username \<in> set (elems tom_and_jerry)"
  "escapeHtml (title tom_and_jerry) = ''Tom &amp; Jerry''"
  "escapeHtml ''1 < 2'' = ''1 &lt; 2''"
  "sel login_username = ''form input[type=\"text\"]''"
  "tagName_lower login_doc [0, 0, 1] = ''input''"
  "getAttribute login_doc [0, 0, 1] ''type'' = Some ''text''"
  "\<not> isMeaningfulId (element_id login_doc [0, 0, 1])"
  "synthesizeSelector login_doc [0, 0, 1] = ''form input[type=\"text\"]''"
  by code_simp+

text \<open>
  Claim C10 at a snapshot with the title \<open>Tom & Jerry\<close>, the text \<open>1 < 2\<close> and the
  first input of the login page, whose selector is \<open>form input[type="text"]\<close>.
\<close>

theorem restore_escapes_text_not_selectors_witness:
  "js_trim (snap_text tom_and_jerry) \<noteq> []
   \<and> ''1 < 2'' \<in> set (js_split re_blank_line [] (snap_text tom_and_jerry))
   \<and> js_trim ''1 < 2'' \<noteq> []
   \<and> sublist ''<p>1 &lt; 2</p>'' (restore tom_and_jerry)
   \<and> prefix (''<!DOCTYPE html>'' @ newline @ ''<html>'' @ newline @ ''<head>'' @ newline
             @ ''  <title>Tom &amp; Jerry</title>'')
        (restore tom_and_jerry)
   \<and> login_username \<in> set (elems tom_and_jerry)
   \<and> sublist ''sel=\"form input[type=\"text\"]\"'' (restore tom_and_jerry)
   \<and> tagName_lower login_doc [0, 0, 1] = ''input''
   \<and> getAttribute login_doc [0, 0, 1] ''type'' = Some ''text''
   \<and> ''text'' \<noteq> []
   \<and> \<not> isMeaningfulId (element_id login_doc [0, 0, 1])
   \<and> CHR 0x22 \<in> set (synthesizeSelector login_doc [0, 0, 1])"
proof -
  note t = restore_escapes_text_not_selectors [of tom_and_jerry _ _ _ login_doc "[0, 0, 1]"
      "''text''"]
  note f = tom_and_jerry_facts
  have ne: "js_trim ''1 < 2'' \<noteq> []" unfolding f(3) by simp
  from t f(1,2) ne have "sublist (''<p>'' @ escapeHtml (js_trim ''1 < 2'') @ ''</p>'')
      (restore tom_and_jerry)"
    by blast
  then have p: "sublist ''<p>1 &lt; 2</p>'' (restore tom_and_jerry)"
    unfolding f(3) f(6) by simp
  from t have "prefix (''<!DOCTYPE html>'' @ newline @ ''<html>'' @ newline @ ''<head>'' @ newline
           @ ''  <title>'' @ escapeHtml (title tom_and_jerry) @ ''</title>'')
     (restore tom_and_jerry)"
    by blast
  then have ti: "prefix (''<!DOCTYPE html>'' @ newline @ ''<html>'' @ newline @ ''<head>''
      @ newline @ ''  <title>Tom &amp; Jerry</title>'') (restore tom_and_jerry)"
    unfolding f(5) by simp
  from t f(4) have "sublist (''sel=\"'' @ sel login_username @ ''\"'') (restore tom_and_jerry)"
    by blast
  then have s: "sublist ''sel=\"form input[type=\"text\"]\"'' (restore tom_and_jerry)"
    unfolding f(7) by simp
  have q: "CHR 0x22 \<in> set (synthesizeSelector login_doc [0, 0, 1])"
    using t f(8,9,10) by blast
  from f(1,2) ne p ti f(4) s f(8,9,10) q show ?thesis by simp
qed

end
